theory Spec2Isabelle
  imports Main "HOL-Library.Word" "HOL-Library.Sublist"
begin

section \<open>JavaScript values\<close>

text \<open>
  A JavaScript string is a sequence of UTF-16 code units. ASCII literals of the source
  are written with \<open>of_ascii\<close>; the Chinese text of its messages is given by its code
  units.
\<close>

type_synonym jsstring = "16 word list"

definition of_ascii :: "string \<Rightarrow> jsstring" where
  "of_ascii cs = map of_char cs"

text \<open>
  The values that travel through the program are plain data: what a parsed JSON body or
  an options literal can hold, and \<open>undefined\<close> for an absent property. Numbers are
  modelled as mathematical integers (no fractions, no rounding of large values).
\<close>

datatype json =
    JUndefined
  | JNull
  | JBool bool
  | JNum int
  | JStr jsstring
  | JArr "json list"
  | JObj "(jsstring \<times> json) list"

text \<open>The result of a numeric JavaScript expression: a number or \<open>NaN\<close>.\<close>

datatype jsnum = Num int | NaN

record response =
  status :: int
  data :: json

text \<open>
  What the program can throw or catch: an \<open>Error\<close> it constructs itself, a
  \<open>TypeError\<close> or \<open>URIError\<close> of the runtime, and the error with which the HTTP
  client rejects (a message and, when the server answered, its response).
\<close>

datatype js_error =
    Error jsstring
  | TypeError jsstring
  | URIError jsstring
  | AxiosError jsstring "response option"

fun error_message :: "js_error \<Rightarrow> jsstring" where
  "error_message (Error m) = m"
| "error_message (TypeError m) = m"
| "error_message (URIError m) = m"
| "error_message (AxiosError m r) = m"

fun error_response :: "js_error \<Rightarrow> response option" where
  "error_response (AxiosError m r) = r"
| "error_response _ = None"

subsection \<open>Conversions and operators\<close>

text \<open>\<open>ToBoolean\<close>: \<open>undefined\<close>, \<open>null\<close>, \<open>false\<close>, \<open>0\<close> and \<open>""\<close> are falsy.\<close>

fun truthy :: "json \<Rightarrow> bool" where
  "truthy JUndefined = False"
| "truthy JNull = False"
| "truthy (JBool b) = b"
| "truthy (JNum n) = (n \<noteq> 0)"
| "truthy (JStr s) = (s \<noteq> [])"
| "truthy (JArr xs) = True"
| "truthy (JObj kvs) = True"

text \<open>\<open>a || b\<close>\<close>

definition js_or :: "json \<Rightarrow> json \<Rightarrow> json" where
  "js_or a b = (if truthy a then a else b)"

fun dec_nat :: "nat \<Rightarrow> jsstring" where
  "dec_nat n = (if n < 10 then [of_nat (48 + n)] else dec_nat (n div 10) @ [of_nat (48 + n mod 10)])"

declare dec_nat.simps [simp del]

definition number_to_string :: "int \<Rightarrow> jsstring" where
  "number_to_string n = (if n < 0 then 0x2D # dec_nat (nat (- n)) else dec_nat (nat n))"

fun join_comma :: "jsstring list \<Rightarrow> jsstring" where
  "join_comma [] = []"
| "join_comma [x] = x"
| "join_comma (x # y # ys) = x @ [0x2C] @ join_comma (y # ys)"

text \<open>
  \<open>ToString\<close>, as string concatenation and template literals apply it: an array is its
  elements joined by commas (\<open>null\<close> and \<open>undefined\<close> elements as the empty string),
  a plain object is \<open>[object Object]\<close>.
\<close>

fun to_string :: "json \<Rightarrow> jsstring" where
  "to_string JUndefined = of_ascii ''undefined''"
| "to_string JNull = of_ascii ''null''"
| "to_string (JBool b) = (if b then of_ascii ''true'' else of_ascii ''false'')"
| "to_string (JNum n) = number_to_string n"
| "to_string (JStr s) = s"
| "to_string (JArr xs) =
     join_comma (map (\<lambda>x. if x = JUndefined \<or> x = JNull then [] else to_string x) xs)"
| "to_string (JObj kvs) = of_ascii ''[object Object]''"

text \<open>
  \<open>ToNumber\<close>. The conversion of a string to a number is the runtime's
  (\<open>StringToNumber\<close>) and is a parameter; arrays and objects are converted through
  their string.
\<close>

fun to_number :: "(jsstring \<Rightarrow> jsnum) \<Rightarrow> json \<Rightarrow> jsnum" where
  "to_number stn JUndefined = NaN"
| "to_number stn JNull = Num 0"
| "to_number stn (JBool b) = Num (if b then 1 else 0)"
| "to_number stn (JNum n) = Num n"
| "to_number stn v = stn (to_string v)"

fun js_times :: "jsnum \<Rightarrow> jsnum \<Rightarrow> jsnum" where
  "js_times (Num a) (Num b) = Num (a * b)"
| "js_times _ _ = NaN"

fun js_plus :: "jsnum \<Rightarrow> jsnum \<Rightarrow> jsnum" where
  "js_plus (Num a) (Num b) = Num (a + b)"
| "js_plus _ _ = NaN"

text \<open>
  Reading a property \<open>v.k\<close>. On \<open>undefined\<close> and \<open>null\<close> the runtime throws a
  \<open>TypeError\<close> (the message is V8's). The property names this program reads are none
  of the built-in properties of strings, numbers, booleans or arrays, so on those the
  read gives \<open>undefined\<close>.
\<close>

definition cannot_read :: "string \<Rightarrow> jsstring \<Rightarrow> js_error" where
  "cannot_read what k =
     TypeError (of_ascii ''Cannot read properties of '' @ of_ascii what @
       of_ascii '' (reading '' @ [0x27] @ k @ [0x27] @ of_ascii '')'')"

fun get_prop :: "json \<Rightarrow> jsstring \<Rightarrow> js_error + json" where
  "get_prop JUndefined k = Inl (cannot_read ''undefined'' k)"
| "get_prop JNull k = Inl (cannot_read ''null'' k)"
| "get_prop (JObj kvs) k = Inr (case map_of kvs k of None \<Rightarrow> JUndefined | Some v \<Rightarrow> v)"
| "get_prop v k = Inr JUndefined"

text \<open>Reading the element \<open>v[0]\<close>.\<close>

fun index0 :: "json \<Rightarrow> js_error + json" where
  "index0 JUndefined = Inl (cannot_read ''undefined'' (of_ascii ''0''))"
| "index0 JNull = Inl (cannot_read ''null'' (of_ascii ''0''))"
| "index0 (JArr xs) = Inr (case xs of [] \<Rightarrow> JUndefined | x # _ \<Rightarrow> x)"
| "index0 (JStr s) = Inr (case s of [] \<Rightarrow> JUndefined | c # _ \<Rightarrow> JStr [c])"
| "index0 (JObj kvs) = Inr (case map_of kvs (of_ascii ''0'') of None \<Rightarrow> JUndefined | Some v \<Rightarrow> v)"
| "index0 v = Inr JUndefined"

text \<open>Optional chaining \<open>v?.k\<close>: \<open>undefined\<close> where \<open>v\<close> is \<open>undefined\<close> or \<open>null\<close>.\<close>

definition opt_prop :: "json \<Rightarrow> jsstring \<Rightarrow> json" where
  "opt_prop v k = (case get_prop v k of Inl e \<Rightarrow> JUndefined | Inr x \<Rightarrow> x)"

text \<open>\<open>error.response?.data\<close> and \<open>error.response?.status\<close>\<close>

definition error_response_data :: "js_error \<Rightarrow> json" where
  "error_response_data e = (case error_response e of None \<Rightarrow> JUndefined | Some r \<Rightarrow> data r)"

definition error_response_status :: "js_error \<Rightarrow> json" where
  "error_response_status e =
     (case error_response e of None \<Rightarrow> JUndefined | Some r \<Rightarrow> JNum (status r))"

subsection \<open>encodeURIComponent\<close>

text \<open>
  The runtime's \<open>encodeURIComponent\<close>: the unreserved characters stay, every other
  code point is written as the percent-escaped octets of its UTF-8 encoding, and a
  surrogate code unit without its partner throws \<open>URIError\<close>.
\<close>

definition uri_unreserved :: "16 word \<Rightarrow> bool" where
  "uri_unreserved c =
     ((0x41 \<le> c \<and> c \<le> 0x5A) \<or> (0x61 \<le> c \<and> c \<le> 0x7A) \<or> (0x30 \<le> c \<and> c \<le> 0x39) \<or>
      c \<in> set (of_ascii ''-_.!~*()'') \<or> c = 0x27)"

definition hex_digit :: "nat \<Rightarrow> 16 word" where
  "hex_digit d = (if d < 10 then of_nat (48 + d) else of_nat (55 + d))"

definition percent :: "nat \<Rightarrow> jsstring" where
  "percent b = [0x25, hex_digit (b div 16), hex_digit (b mod 16)]"

definition utf8 :: "nat \<Rightarrow> nat list" where
  "utf8 cp =
     (if cp < 0x80 then [cp]
      else if cp < 0x800 then [0xC0 + cp div 0x40, 0x80 + cp mod 0x40]
      else if cp < 0x10000 then
        [0xE0 + cp div 0x1000, 0x80 + (cp div 0x40) mod 0x40, 0x80 + cp mod 0x40]
      else
        [0xF0 + cp div 0x40000, 0x80 + (cp div 0x1000) mod 0x40,
         0x80 + (cp div 0x40) mod 0x40, 0x80 + cp mod 0x40])"

definition escape :: "nat \<Rightarrow> jsstring" where
  "escape cp = concat (map percent (utf8 cp))"

definition high_surrogate :: "16 word \<Rightarrow> bool" where
  "high_surrogate c = (0xD800 \<le> c \<and> c \<le> 0xDBFF)"

definition low_surrogate :: "16 word \<Rightarrow> bool" where
  "low_surrogate c = (0xDC00 \<le> c \<and> c \<le> 0xDFFF)"

definition uri_malformed :: js_error where
  "uri_malformed = URIError (of_ascii ''URI malformed'')"

fun after :: "jsstring \<Rightarrow> js_error + jsstring \<Rightarrow> js_error + jsstring" where
  "after pre (Inl e) = Inl e"
| "after pre (Inr rest) = Inr (pre @ rest)"

fun encodeURIComponent :: "jsstring \<Rightarrow> js_error + jsstring" where
  "encodeURIComponent [] = Inr []"
| "encodeURIComponent (c # cs) =
     (if uri_unreserved c then after [c] (encodeURIComponent cs)
      else if low_surrogate c then Inl uri_malformed
      else if high_surrogate c then
        (case cs of
           [] \<Rightarrow> Inl uri_malformed
         | d # ds \<Rightarrow>
             if low_surrogate d then
               after (escape ((unat c - 0xD800) * 0x400 + (unat d - 0xDC00) + 0x10000))
                 (encodeURIComponent ds)
             else Inl uri_malformed)
      else after (escape (unat c)) (encodeURIComponent cs))"

section \<open>The world of a call: network, console, event channel, clock\<close>

datatype http_method = GET | POST

datatype request_body =
    NoBody
  | Form "(jsstring \<times> json) list"
  | Json json

record request =
  req_method :: http_method
  req_url :: jsstring
  req_body :: request_body
  req_headers :: "(jsstring \<times> jsstring) list"

text \<open>What the network gives for a request: no answer at all, or a status and a body.\<close>

datatype net_reply = NoReply jsstring | Reply int json

text \<open>
  The environment of a run. One run of the program sends each of its requests to a
  different address, so a function of the request can stand for any behaviour of the
  services. \<open>clock\<close> gives the value of the \<open>k\<close>-th reading of the time.
\<close>

record env =
  transport :: "request \<Rightarrow> net_reply"
  clock :: "nat \<Rightarrow> int"
  string_to_number :: "jsstring \<Rightarrow> jsnum"

text \<open>
  The state a run changes: the requests sent so far, the lines written with
  \<open>console.error\<close>, the errors emitted on the \<open>error\<close> channel of the provider, the
  number of readings of the clock, and the listeners registered on the channel. A listener
  is code of the caller: called with an error it either returns (\<open>None\<close>) or throws
  (\<open>Some x\<close>).
\<close>

type_synonym listener = "js_error \<Rightarrow> js_error option"

record state =
  calls :: "request list"
  console :: "(jsstring \<times> json) list"
  emitted :: "js_error list"
  ticks :: nat
  error_listeners :: "listener list"

type_synonym 'a io = "state \<Rightarrow> state \<times> (js_error + 'a)"

definition ret :: "'a \<Rightarrow> 'a io" where
  "ret x s = (s, Inr x)"

definition throw :: "js_error \<Rightarrow> 'a io" where
  "throw e s = (s, Inl e)"

definition lift :: "js_error + 'a \<Rightarrow> 'a io" where
  "lift r s = (s, r)"

definition seq :: "'a io \<Rightarrow> ('a \<Rightarrow> 'b io) \<Rightarrow> 'b io" where
  "seq m f s = (case m s of (s', Inl e) \<Rightarrow> (s', Inl e) | (s', Inr x) \<Rightarrow> f x s')"

definition try_catch :: "'a io \<Rightarrow> (js_error \<Rightarrow> 'a io) \<Rightarrow> 'a io" where
  "try_catch m h s = (case m s of (s', Inl e) \<Rightarrow> h e s' | (s', Inr x) \<Rightarrow> (s', Inr x))"

definition console_error :: "jsstring \<Rightarrow> json \<Rightarrow> unit io" where
  "console_error label v s = (s\<lparr>console := console s @ [(label, v)]\<rparr>, Inr ())"

text \<open>
  \<open>emit('error', e)\<close> of the event emitter the provider extends. With no listener on
  the channel the emitter throws \<open>e\<close> itself. Otherwise it calls the listeners with
  \<open>e\<close>, one after the other in the order of their registration, with no guard: what
  a listener throws leaves \<open>emit\<close> at once, before the remaining listeners are called.
\<close>

fun run_listeners :: "listener list \<Rightarrow> js_error \<Rightarrow> js_error option" where
  "run_listeners [] e = None"
| "run_listeners (l # ls) e = (case l e of Some x \<Rightarrow> Some x | None \<Rightarrow> run_listeners ls e)"

definition emit_error :: "js_error \<Rightarrow> unit io" where
  "emit_error e s =
     (s\<lparr>emitted := emitted s @ [e]\<rparr>,
      if error_listeners s = [] then Inl e
      else (case run_listeners (error_listeners s) e of Some x \<Rightarrow> Inl x | None \<Rightarrow> Inr ()))"

definition date_now :: "env \<Rightarrow> int io" where
  "date_now env s = (s\<lparr>ticks := ticks s + 1\<rparr>, Inr (clock env (ticks s)))"

text \<open>
  The HTTP client (axios with its default \<open>validateStatus\<close>): a status from 200 to
  299 resolves to the response, any other status rejects with an error that carries the
  response, and a request without an answer rejects with an error that carries none.
\<close>

definition axios_settle :: "net_reply \<Rightarrow> js_error + response" where
  "axios_settle r =
     (case r of
        NoReply m \<Rightarrow> Inl (AxiosError m None)
      | Reply st d \<Rightarrow>
          if 200 \<le> st \<and> st < 300 then Inr \<lparr>status = st, data = d\<rparr>
          else Inl (AxiosError (of_ascii ''Request failed with status code '' @ number_to_string st)
                      (Some \<lparr>status = st, data = d\<rparr>)))"

definition axios_request :: "env \<Rightarrow> request \<Rightarrow> response io" where
  "axios_request env req s = (s\<lparr>calls := calls s @ [req]\<rparr>, axios_settle (transport env req))"

section \<open>The provider\<close>

record provider =
  clientId :: json
  redirectUri :: json

definition ErrorCode_UNKNOWN :: jsstring where
  "ErrorCode_UNKNOWN = of_ascii ''unknown_error''"

definition ErrorCode_USER_CANCELLED :: jsstring where
  "ErrorCode_USER_CANCELLED = of_ascii ''user_cancelled''"

definition ErrorCode_ACCESS_DENIED :: jsstring where
  "ErrorCode_ACCESS_DENIED = of_ascii ''access_denied''"

definition ErrorCode_SERVER_ERROR :: jsstring where
  "ErrorCode_SERVER_ERROR = of_ascii ''server_error''"

definition ErrorCode_ACCOUNT_NOT_FOUND :: jsstring where
  "ErrorCode_ACCOUNT_NOT_FOUND = of_ascii ''account_not_found''"

definition ErrorCode_NO_XBOX_ACCOUNT :: jsstring where
  "ErrorCode_NO_XBOX_ACCOUNT = of_ascii ''no_xbox_account''"

definition ErrorCode_NO_MINECRAFT :: jsstring where
  "ErrorCode_NO_MINECRAFT = of_ascii ''no_minecraft_license''"

definition msg_clientId_required :: jsstring where
  "msg_clientId_required = [0x5FC5, 0x987B, 0x63D0, 0x4F9B] @ of_ascii ''clientId'' @ [0x53C2, 0x6570]"

definition default_redirectUri :: jsstring where
  "default_redirectUri = of_ascii ''https://login.microsoftonline.com/common/oauth2/nativeclient''"

text \<open>\<open>new MicrosoftAuthProvider(options)\<close>\<close>

definition new_provider :: "json \<Rightarrow> provider io" where
  "new_provider options =
     (if \<not> truthy options then throw (Error msg_clientId_required)
      else seq (lift (get_prop options (of_ascii ''clientId''))) (\<lambda>cid.
        if \<not> truthy cid then throw (Error msg_clientId_required)
        else seq (lift (get_prop options (of_ascii ''redirectUri''))) (\<lambda>ru.
          ret \<lparr>clientId = cid, redirectUri = js_or ru (JStr default_redirectUri)\<rparr>)))"

definition scopes :: jsstring where
  "scopes = of_ascii ''XboxLive.signin offline_access''"

definition authorize_prefix :: jsstring where
  "authorize_prefix =
     of_ascii ''https://login.microsoftonline.com/consumers/oauth2/v2.0/authorize?prompt=select_account&client_id=''"

definition getAuthorizationUrl :: "provider \<Rightarrow> jsstring io" where
  "getAuthorizationUrl p =
     seq (lift (encodeURIComponent scopes)) (\<lambda>enc_scopes.
     seq (lift (encodeURIComponent (to_string (redirectUri p)))) (\<lambda>enc_redirect.
       ret (authorize_prefix @ to_string (clientId p) @ of_ascii ''&response_type=code&scope='' @
            enc_scopes @ of_ascii ''&redirect_uri='' @ enc_redirect)))"

section \<open>The five stages\<close>

definition json_headers :: "(jsstring \<times> jsstring) list" where
  "json_headers =
     [(of_ascii ''Content-Type'', of_ascii ''application/json''),
      (of_ascii ''Accept'', of_ascii ''application/json'')]"

definition bearer_headers :: "json \<Rightarrow> (jsstring \<times> jsstring) list" where
  "bearer_headers accessToken =
     [(of_ascii ''Authorization'', of_ascii ''Bearer '' @ to_string accessToken)]"

subsection \<open>Stage 1: getMicrosoftToken\<close>

definition tokenUrl :: jsstring where
  "tokenUrl = of_ascii ''https://login.microsoftonline.com/consumers/oauth2/v2.0/token''"

definition msg_ms_token_failed :: jsstring where
  "msg_ms_token_failed = [0x83B7, 0x53D6] @ of_ascii ''Microsoft'' @ [0x4EE4, 0x724C, 0x5931, 0x8D25]"

definition ms_token_request :: "provider \<Rightarrow> json \<Rightarrow> bool \<Rightarrow> request" where
  "ms_token_request p code isRefresh =
     \<lparr>req_method = POST, req_url = tokenUrl,
      req_body = Form
        ([(of_ascii ''client_id'', clientId p), (of_ascii ''scope'', JStr scopes)] @
         (if isRefresh then
            [(of_ascii ''grant_type'', JStr (of_ascii ''refresh_token'')),
             (of_ascii ''refresh_token'', code)]
          else
            [(of_ascii ''grant_type'', JStr (of_ascii ''authorization_code'')),
             (of_ascii ''code'', code),
             (of_ascii ''redirect_uri'', redirectUri p)])),
      req_headers = []\<rparr>"

definition getMicrosoftToken :: "env \<Rightarrow> provider \<Rightarrow> json \<Rightarrow> bool \<Rightarrow> json io" where
  "getMicrosoftToken env p code isRefresh =
     try_catch
       (seq (axios_request env (ms_token_request p code isRefresh)) (\<lambda>response.
          ret (data response)))
       (\<lambda>error.
          seq (console_error msg_ms_token_failed
                 (js_or (error_response_data error) (JStr (error_message error)))) (\<lambda>_.
          throw (Error (msg_ms_token_failed @ of_ascii '': '' @
            to_string (js_or (opt_prop (error_response_data error) (of_ascii ''error_description''))
                             (JStr (error_message error)))))))"

subsection \<open>Stage 2: getXboxLiveToken\<close>

definition xblUrl :: jsstring where
  "xblUrl = of_ascii ''https://user.auth.xboxlive.com/user/authenticate''"

definition msg_xbl_token_failed :: jsstring where
  "msg_xbl_token_failed = [0x83B7, 0x53D6] @ of_ascii ''Xbox Live'' @ [0x4EE4, 0x724C, 0x5931, 0x8D25]"

definition xbl_request :: "json \<Rightarrow> request" where
  "xbl_request accessToken =
     \<lparr>req_method = POST, req_url = xblUrl,
      req_body = Json (JObj
        [(of_ascii ''Properties'', JObj
            [(of_ascii ''AuthMethod'', JStr (of_ascii ''RPS'')),
             (of_ascii ''SiteName'', JStr (of_ascii ''user.auth.xboxlive.com'')),
             (of_ascii ''RpsTicket'', JStr (of_ascii ''d='' @ to_string accessToken))]),
         (of_ascii ''RelyingParty'', JStr (of_ascii ''http://auth.xboxlive.com'')),
         (of_ascii ''TokenType'', JStr (of_ascii ''JWT''))]),
      req_headers = json_headers\<rparr>"

definition getXboxLiveToken :: "env \<Rightarrow> json \<Rightarrow> json io" where
  "getXboxLiveToken env accessToken =
     try_catch
       (seq (axios_request env (xbl_request accessToken)) (\<lambda>response.
          ret (data response)))
       (\<lambda>error.
          seq (console_error msg_xbl_token_failed
                 (js_or (error_response_data error) (JStr (error_message error)))) (\<lambda>_.
          throw (Error (msg_xbl_token_failed @ of_ascii '': '' @
            to_string (js_or (opt_prop (error_response_data error) (of_ascii ''message''))
                             (JStr (error_message error)))))))"

subsection \<open>Stage 3: getXSTSToken\<close>

record xsts_data =
  token :: json
  userHash :: json

definition xstsUrl :: jsstring where
  "xstsUrl = of_ascii ''https://xsts.auth.xboxlive.com/xsts/authorize''"

definition msg_xsts_token_failed :: jsstring where
  "msg_xsts_token_failed = [0x83B7, 0x53D6] @ of_ascii ''XSTS'' @ [0x4EE4, 0x724C, 0x5931, 0x8D25]"

definition msg_no_xbox_account :: jsstring where
  "msg_no_xbox_account =
     [0x6B64, 0x8D26, 0x6237, 0x6CA1, 0x6709] @ of_ascii ''Xbox'' @
     [0x8D26, 0x6237, 0xFF0C, 0x60A8, 0x9700, 0x8981, 0x521B, 0x5EFA, 0x4E00, 0x4E2A] @
     of_ascii '': ''"

definition msg_unsupported_region :: jsstring where
  "msg_unsupported_region =
     [0x6B64, 0x8D26, 0x6237, 0x6765, 0x81EA, 0x4E0D, 0x652F, 0x6301] @ of_ascii ''Xbox Live'' @
     [0x7684, 0x56FD, 0x5BB6] @ of_ascii ''/'' @ [0x5730, 0x533A]"

definition xsts_request :: "json \<Rightarrow> request" where
  "xsts_request xblToken =
     \<lparr>req_method = POST, req_url = xstsUrl,
      req_body = Json (JObj
        [(of_ascii ''Properties'', JObj
            [(of_ascii ''SandboxId'', JStr (of_ascii ''RETAIL'')),
             (of_ascii ''UserTokens'', JArr [xblToken])]),
         (of_ascii ''RelyingParty'', JStr (of_ascii ''rp://api.minecraftservices.com/'')),
         (of_ascii ''TokenType'', JStr (of_ascii ''JWT''))]),
      req_headers = json_headers\<rparr>"

definition getXSTSToken :: "env \<Rightarrow> json \<Rightarrow> xsts_data io" where
  "getXSTSToken env xblToken =
     try_catch
       (seq (axios_request env (xsts_request xblToken)) (\<lambda>response.
        seq (lift (get_prop (data response) (of_ascii ''Token''))) (\<lambda>tok.
        seq (lift (get_prop (data response) (of_ascii ''DisplayClaims''))) (\<lambda>claims.
        seq (lift (get_prop claims (of_ascii ''xui''))) (\<lambda>xui.
        seq (lift (index0 xui)) (\<lambda>first.
        seq (lift (get_prop first (of_ascii ''uhs''))) (\<lambda>uhs.
          ret \<lparr>token = tok, userHash = uhs\<rparr>)))))))
       (\<lambda>error.
          seq (console_error msg_xsts_token_failed
                 (js_or (error_response_data error) (JStr (error_message error)))) (\<lambda>_.
          seq (if error_response_status error = JNum 401 then
                 seq (lift (get_prop (error_response_data error) (of_ascii ''XErr''))) (\<lambda>xerr.
                   if xerr = JNum 2148916233 then
                     throw (Error (msg_no_xbox_account @ ErrorCode_NO_XBOX_ACCOUNT))
                   else if xerr = JNum 2148916238 then
                     throw (Error msg_unsupported_region)
                   else ret ())
               else ret ()) (\<lambda>_.
          throw (Error (msg_xsts_token_failed @ of_ascii '': '' @
            to_string (js_or (opt_prop (error_response_data error) (of_ascii ''message''))
                             (JStr (error_message error))))))))"

subsection \<open>Stage 4: getMinecraftToken\<close>

definition mcTokenUrl :: jsstring where
  "mcTokenUrl = of_ascii ''https://api.minecraftservices.com/authentication/login_with_xbox''"

definition msg_mc_token_failed :: jsstring where
  "msg_mc_token_failed = [0x83B7, 0x53D6] @ of_ascii ''Minecraft'' @ [0x4EE4, 0x724C, 0x5931, 0x8D25]"

definition mc_token_request :: "xsts_data \<Rightarrow> request" where
  "mc_token_request xstsData =
     \<lparr>req_method = POST, req_url = mcTokenUrl,
      req_body = Json (JObj
        [(of_ascii ''identityToken'',
          JStr (of_ascii ''XBL3.0 x='' @ to_string (userHash xstsData) @ of_ascii '';'' @
                to_string (token xstsData)))]),
      req_headers = json_headers\<rparr>"

definition getMinecraftToken :: "env \<Rightarrow> xsts_data \<Rightarrow> json io" where
  "getMinecraftToken env xstsData =
     try_catch
       (seq (axios_request env (mc_token_request xstsData)) (\<lambda>response.
          ret (data response)))
       (\<lambda>error.
          seq (console_error msg_mc_token_failed
                 (js_or (error_response_data error) (JStr (error_message error)))) (\<lambda>_.
          throw (Error (msg_mc_token_failed @ of_ascii '': '' @
            to_string (js_or (opt_prop (error_response_data error) (of_ascii ''message''))
                             (JStr (error_message error)))))))"

subsection \<open>Stage 5: getMinecraftProfile\<close>

definition profileUrl :: jsstring where
  "profileUrl = of_ascii ''https://api.minecraftservices.com/minecraft/profile''"

definition msg_profile_failed :: jsstring where
  "msg_profile_failed = [0x83B7, 0x53D6] @ of_ascii ''Minecraft'' @ [0x8D44, 0x6599, 0x5931, 0x8D25]"

definition msg_profile_not_found :: jsstring where
  "msg_profile_not_found =
     [0x6CA1, 0x6709, 0x627E, 0x5230] @ of_ascii ''Minecraft'' @
     [0x8D44, 0x6599, 0xFF0C, 0x53EF, 0x80FD, 0x6CA1, 0x6709, 0x8D2D, 0x4E70, 0x6E38, 0x620F] @
     of_ascii '': ''"

definition msg_not_purchased :: jsstring where
  "msg_not_purchased =
     [0x6B64, 0x8D26, 0x6237, 0x6CA1, 0x6709, 0x8D2D, 0x4E70] @ of_ascii ''Minecraft: ''"

definition profile_request :: "json \<Rightarrow> request" where
  "profile_request accessToken =
     \<lparr>req_method = GET, req_url = profileUrl, req_body = NoBody,
      req_headers = bearer_headers accessToken\<rparr>"

definition getMinecraftProfile :: "env \<Rightarrow> json \<Rightarrow> json io" where
  "getMinecraftProfile env accessToken =
     try_catch
       (seq (axios_request env (profile_request accessToken)) (\<lambda>response.
        seq (if \<not> truthy (data response) then ret True
             else seq (lift (get_prop (data response) (of_ascii ''id''))) (\<lambda>i.
                    ret (\<not> truthy i))) (\<lambda>missing.
          if missing then throw (Error (msg_profile_not_found @ ErrorCode_NO_MINECRAFT))
          else ret (data response))))
       (\<lambda>error.
          seq (console_error msg_profile_failed
                 (js_or (error_response_data error) (JStr (error_message error)))) (\<lambda>_.
          if error_response_status error = JNum 404 then
            throw (Error (msg_not_purchased @ ErrorCode_NO_MINECRAFT))
          else
            throw (Error (msg_profile_failed @ of_ascii '': '' @
              to_string (js_or (opt_prop (error_response_data error) (of_ascii ''message''))
                               (JStr (error_message error)))))))"

section \<open>Orchestration\<close>

record microsoft_tokens =
  access_token :: json
  refresh_token :: json
  expires_at :: jsnum

record minecraft_tokens =
  mc_access_token :: json
  mc_expires_at :: jsnum

record profile_view =
  profile_id :: json
  profile_name :: json
  skins :: json
  capes :: json

record user_view =
  username :: json
  uuid :: json
  user_type :: jsstring

record refresh_result =
  microsoft :: microsoft_tokens
  minecraft :: minecraft_tokens

record login_result = refresh_result +
  profile :: profile_view
  user :: user_view

text \<open>\<open>Date.now() + (tokenData.expires_in * 1000)\<close>\<close>

definition expiry :: "env \<Rightarrow> json \<Rightarrow> jsnum io" where
  "expiry env tokenData =
     seq (date_now env) (\<lambda>now.
     seq (lift (get_prop tokenData (of_ascii ''expires_in''))) (\<lambda>expires_in.
       ret (js_plus (Num now) (js_times (to_number (string_to_number env) expires_in) (Num 1000)))))"

definition completeLogin :: "env \<Rightarrow> provider \<Rightarrow> json \<Rightarrow> login_result io" where
  "completeLogin env p authCode =
     try_catch
       (seq (getMicrosoftToken env p authCode False) (\<lambda>msTokenData.
        seq (lift (get_prop msTokenData (of_ascii ''access_token''))) (\<lambda>ms_access.
        seq (getXboxLiveToken env ms_access) (\<lambda>xblTokenData.
        seq (lift (get_prop xblTokenData (of_ascii ''Token''))) (\<lambda>xblToken.
        seq (getXSTSToken env xblToken) (\<lambda>xstsTokenData.
        seq (getMinecraftToken env xstsTokenData) (\<lambda>mcTokenData.
        seq (lift (get_prop mcTokenData (of_ascii ''access_token''))) (\<lambda>mc_access.
        seq (getMinecraftProfile env mc_access) (\<lambda>mcProfileData.
        seq (lift (get_prop msTokenData (of_ascii ''access_token''))) (\<lambda>r_ms_access.
        seq (lift (get_prop msTokenData (of_ascii ''refresh_token''))) (\<lambda>r_ms_refresh.
        seq (expiry env msTokenData) (\<lambda>r_ms_expires.
        seq (lift (get_prop mcTokenData (of_ascii ''access_token''))) (\<lambda>r_mc_access.
        seq (expiry env mcTokenData) (\<lambda>r_mc_expires.
        seq (lift (get_prop mcProfileData (of_ascii ''id''))) (\<lambda>r_id.
        seq (lift (get_prop mcProfileData (of_ascii ''name''))) (\<lambda>r_name.
        seq (lift (get_prop mcProfileData (of_ascii ''skins''))) (\<lambda>r_skins.
        seq (lift (get_prop mcProfileData (of_ascii ''capes''))) (\<lambda>r_capes.
        seq (lift (get_prop mcProfileData (of_ascii ''name''))) (\<lambda>r_username.
        seq (lift (get_prop mcProfileData (of_ascii ''id''))) (\<lambda>r_uuid.
          ret \<lparr>microsoft =
                 \<lparr>access_token = r_ms_access, refresh_token = r_ms_refresh,
                  expires_at = r_ms_expires\<rparr>,
               minecraft = \<lparr>mc_access_token = r_mc_access, mc_expires_at = r_mc_expires\<rparr>,
               profile =
                 \<lparr>profile_id = r_id, profile_name = r_name, skins = r_skins, capes = r_capes\<rparr>,
               user =
                 \<lparr>username = r_username, uuid = r_uuid,
                  user_type = of_ascii ''microsoft''\<rparr>\<rparr>))))))))))))))))))))
       (\<lambda>error. seq (emit_error error) (\<lambda>_. throw error))"

definition refreshTokens :: "env \<Rightarrow> provider \<Rightarrow> json \<Rightarrow> refresh_result io" where
  "refreshTokens env p refreshToken =
     try_catch
       (seq (getMicrosoftToken env p refreshToken True) (\<lambda>msTokenData.
        seq (lift (get_prop msTokenData (of_ascii ''access_token''))) (\<lambda>ms_access.
        seq (getXboxLiveToken env ms_access) (\<lambda>xblTokenData.
        seq (lift (get_prop xblTokenData (of_ascii ''Token''))) (\<lambda>xblToken.
        seq (getXSTSToken env xblToken) (\<lambda>xstsTokenData.
        seq (getMinecraftToken env xstsTokenData) (\<lambda>mcTokenData.
        seq (lift (get_prop msTokenData (of_ascii ''access_token''))) (\<lambda>r_ms_access.
        seq (lift (get_prop msTokenData (of_ascii ''refresh_token''))) (\<lambda>r_ms_refresh.
        seq (expiry env msTokenData) (\<lambda>r_ms_expires.
        seq (lift (get_prop mcTokenData (of_ascii ''access_token''))) (\<lambda>r_mc_access.
        seq (expiry env mcTokenData) (\<lambda>r_mc_expires.
          ret \<lparr>microsoft =
                 \<lparr>access_token = r_ms_access, refresh_token = r_ms_refresh,
                  expires_at = r_ms_expires\<rparr>,
               minecraft =
                 \<lparr>mc_access_token = r_mc_access, mc_expires_at = r_mc_expires\<rparr>\<rparr>))))))))))))
       (\<lambda>error. seq (emit_error error) (\<lambda>_. throw error))"

section \<open>Token validation and ownership check\<close>

definition entitlementsUrl :: jsstring where
  "entitlementsUrl = of_ascii ''https://api.minecraftservices.com/entitlements/mcstore''"

definition entitlements_request :: "json \<Rightarrow> request" where
  "entitlements_request accessToken =
     \<lparr>req_method = GET, req_url = entitlementsUrl, req_body = NoBody,
      req_headers = bearer_headers accessToken\<rparr>"

definition validateMinecraftToken :: "env \<Rightarrow> json \<Rightarrow> json io" where
  "validateMinecraftToken env accessToken =
     try_catch
       (seq (axios_request env (entitlements_request accessToken)) (\<lambda>response.
          ret (JBool (status response = 200))))
       (\<lambda>error. ret (JBool False))"

definition msg_ownership_failed :: jsstring where
  "msg_ownership_failed = [0x68C0, 0x67E5, 0x6E38, 0x620F, 0x6240, 0x6709, 0x6743, 0x5931, 0x8D25]"

text \<open>\<open>items.some(item => item.name === 'game_minecraft')\<close> on an array.\<close>

fun some_game :: "json list \<Rightarrow> js_error + bool" where
  "some_game [] = Inr False"
| "some_game (item # rest) =
     (case get_prop item (of_ascii ''name'') of
        Inl e \<Rightarrow> Inl e
      | Inr n \<Rightarrow> if n = JStr (of_ascii ''game_minecraft'') then Inr True else some_game rest)"

text \<open>
  The call \<open>items.some(...)\<close> on a truthy value: only an array has the method; on any
  other value the call throws a \<open>TypeError\<close>.
\<close>

definition call_some :: "json \<Rightarrow> js_error + json" where
  "call_some items =
     (case items of
        JArr xs \<Rightarrow> (case some_game xs of Inl e \<Rightarrow> Inl e | Inr b \<Rightarrow> Inr (JBool b))
      | _ \<Rightarrow> Inl (TypeError (of_ascii ''response.data.items.some is not a function'')))"

definition checkGameOwnership :: "env \<Rightarrow> json \<Rightarrow> json io" where
  "checkGameOwnership env accessToken =
     try_catch
       (seq (axios_request env (entitlements_request accessToken)) (\<lambda>response.
          if \<not> truthy (data response) then ret (data response)
          else seq (lift (get_prop (data response) (of_ascii ''items''))) (\<lambda>items.
            if \<not> truthy items then ret items
            else lift (call_some items))))
       (\<lambda>error.
          seq (console_error msg_ownership_failed
                 (js_or (error_response_data error) (JStr (error_message error)))) (\<lambda>_.
          ret (JBool False)))"

section \<open>Vocabulary of the properties\<close>

text \<open>A fresh state: nothing sent, nothing logged, nothing emitted, no listener.\<close>

definition initial_state :: state where
  "initial_state = \<lparr>calls = [], console = [], emitted = [], ticks = 0, error_listeners = []\<rparr>"

text \<open>
  What the handler of an orchestration ends with after emitting \<open>e\<close>: what a listener
  threw, or \<open>e\<close> itself when every listener returned or there is none.
\<close>

definition propagated :: "state \<Rightarrow> js_error \<Rightarrow> js_error" where
  "propagated s e = (case run_listeners (error_listeners s) e of None \<Rightarrow> e | Some x \<Rightarrow> x)"

text \<open>A state with one listener that returns, and one with a listener that throws.\<close>

definition heard_state :: state where
  "heard_state = initial_state\<lparr>error_listeners := [\<lambda>e. None]\<rparr>"

definition listener_error :: js_error where
  "listener_error = Error (of_ascii ''listener failed'')"

definition throwing_state :: state where
  "throwing_state = initial_state\<lparr>error_listeners := [\<lambda>e. Some listener_error]\<rparr>"

text \<open>
  A computation is \<open>quiet\<close> for a predicate on requests when it emits nothing on the
  error channel, leaves the listeners alone and only adds requests that satisfy the
  predicate to those already sent.
\<close>

definition quiet :: "(request \<Rightarrow> bool) \<Rightarrow> 'a io \<Rightarrow> bool" where
  "quiet P m =
     (\<forall>s. emitted (fst (m s)) = emitted s \<and> error_listeners (fst (m s)) = error_listeners s \<and>
          (\<exists>new. calls (fst (m s)) = calls s @ new \<and> list_all P new))"

text \<open>A string is well-formed UTF-16 when every surrogate code unit has its partner.\<close>

fun well_formed_utf16 :: "jsstring \<Rightarrow> bool" where
  "well_formed_utf16 [] = True"
| "well_formed_utf16 (c # cs) =
     (if high_surrogate c then
        (case cs of [] \<Rightarrow> False | d # ds \<Rightarrow> low_surrogate d \<and> well_formed_utf16 ds)
      else \<not> low_surrogate c \<and> well_formed_utf16 cs)"

subsection \<open>A sample environment\<close>

text \<open>
  Services that answer each of the five addresses with a given reply, a clock that
  advances by one millisecond per reading, and sample replies of the five services.
\<close>

definition route ::
  "net_reply \<Rightarrow> net_reply \<Rightarrow> net_reply \<Rightarrow> net_reply \<Rightarrow> net_reply \<Rightarrow> request \<Rightarrow> net_reply" where
  "route r1 r2 r3 r4 r5 q =
     (if req_url q = tokenUrl then r1
      else if req_url q = xblUrl then r2
      else if req_url q = xstsUrl then r3
      else if req_url q = mcTokenUrl then r4
      else r5)"

definition demo_env ::
  "net_reply \<Rightarrow> net_reply \<Rightarrow> net_reply \<Rightarrow> net_reply \<Rightarrow> net_reply \<Rightarrow> env" where
  "demo_env r1 r2 r3 r4 r5 =
     \<lparr>transport = route r1 r2 r3 r4 r5, clock = (\<lambda>k. 1700000000000 + int k),
      string_to_number = (\<lambda>t. NaN)\<rparr>"

definition demo_provider :: provider where
  "demo_provider =
     \<lparr>clientId = JStr (of_ascii ''my-client-id''), redirectUri = JStr default_redirectUri\<rparr>"

definition ms_body :: json where
  "ms_body = JObj [(of_ascii ''access_token'', JStr (of_ascii ''ms-access'')),
                   (of_ascii ''refresh_token'', JStr (of_ascii ''ms-refresh'')),
                   (of_ascii ''expires_in'', JNum 3600)]"

definition xbl_body :: json where
  "xbl_body = JObj [(of_ascii ''Token'', JStr (of_ascii ''xbl-ticket''))]"

definition xsts_body :: json where
  "xsts_body =
     JObj [(of_ascii ''Token'', JStr (of_ascii ''xsts-token'')),
           (of_ascii ''DisplayClaims'',
            JObj [(of_ascii ''xui'', JArr [JObj [(of_ascii ''uhs'', JStr (of_ascii ''hash''))]])])]"

definition mc_body :: json where
  "mc_body = JObj [(of_ascii ''access_token'', JStr (of_ascii ''mc-access'')),
                   (of_ascii ''expires_in'', JNum 86400)]"

definition profile_body :: json where
  "profile_body = JObj [(of_ascii ''id'', JStr (of_ascii ''0123abcd'')),
                        (of_ascii ''name'', JStr (of_ascii ''Steve''))]"

definition demo_xsts :: xsts_data where
  "demo_xsts = \<lparr>token = JStr (of_ascii ''xsts-token''), userHash = JStr (of_ascii ''hash'')\<rparr>"

definition ms_ok :: net_reply where
  "ms_ok = Reply 200 ms_body"

definition xbl_ok :: net_reply where
  "xbl_ok = Reply 200 xbl_body"

definition xsts_ok :: net_reply where
  "xsts_ok = Reply 200 xsts_body"

definition mc_ok :: net_reply where
  "mc_ok = Reply 200 mc_body"

section \<open>Basic facts\<close>

lemmas io_defs = ret_def throw_def lift_def seq_def try_catch_def

lemmas stage_defs = io_defs axios_request_def axios_settle_def console_error_def

subsection \<open>Strings\<close>

lemma unat_of_char16: "unat (of_char a :: 16 word) = of_char a"
proof -
  have "(of_char a :: 16 word) = of_nat (of_char a)"
    by (simp only: of_nat_of_char)
  then have "unat (of_char a :: 16 word) = (of_char a :: nat) mod 2 ^ 16"
    by (simp add: unat_of_nat)
  moreover have "(of_char a :: nat) < 256"
    by simp
  ultimately show ?thesis
    by simp
qed

lemma of_char_inj16: "(of_char a :: 16 word) = of_char b \<longleftrightarrow> a = b"
proof
  assume "(of_char a :: 16 word) = of_char b"
  then have "unat (of_char a :: 16 word) = unat (of_char b :: 16 word)"
    by simp
  then have "(of_char a :: nat) = of_char b"
    by (simp only: unat_of_char16)
  then show "a = b"
    by simp
qed simp

lemma of_ascii_inj: "of_ascii a = of_ascii b \<longleftrightarrow> a = b"
proof -
  have "inj (of_char :: char \<Rightarrow> 16 word)"
    by (rule injI) (simp only: of_char_inj16)
  then show ?thesis
    unfolding of_ascii_def by (rule inj_map_eq_map)
qed

lemma of_ascii_Nil: "of_ascii a = [] \<longleftrightarrow> a = []"
  by (simp add: of_ascii_def)

lemma url_distinct:
  "xstsUrl \<noteq> mcTokenUrl" "xstsUrl \<noteq> profileUrl" "xblUrl \<noteq> mcTokenUrl" "xblUrl \<noteq> profileUrl"
  "tokenUrl \<noteq> mcTokenUrl" "tokenUrl \<noteq> profileUrl" "mcTokenUrl \<noteq> profileUrl"
  "tokenUrl \<noteq> xblUrl" "tokenUrl \<noteq> xstsUrl" "xblUrl \<noteq> xstsUrl"
  by (simp_all add: xstsUrl_def mcTokenUrl_def profileUrl_def xblUrl_def tokenUrl_def of_ascii_inj)

lemma sublist_suffix_part: "sublist ys (xs @ ys)"
  unfolding sublist_def by (rule exI[of _ xs], rule exI[of _ "[]"]) simp

subsection \<open>Property reads\<close>

lemma opt_prop_simps:
  "opt_prop JUndefined k = JUndefined"
  "opt_prop JNull k = JUndefined"
  "opt_prop (JBool b) k = JUndefined"
  "opt_prop (JNum n) k = JUndefined"
  "opt_prop (JStr t) k = JUndefined"
  "opt_prop (JArr xs) k = JUndefined"
  "opt_prop (JObj kvs) k = (case map_of kvs k of None \<Rightarrow> JUndefined | Some v \<Rightarrow> v)"
  by (simp_all add: opt_prop_def)

lemma get_prop_total: "get_prop v k = Inr x \<Longrightarrow> get_prop v k' = Inr (opt_prop v k')"
  by (cases v) (simp_all add: opt_prop_def)

lemma get_prop_opt: "get_prop v k = Inr x \<Longrightarrow> x = opt_prop v k"
  by (simp add: opt_prop_def)

lemma truthy_get_prop: "truthy v \<Longrightarrow> get_prop v k = Inr (opt_prop v k)"
  by (cases v) (simp_all add: opt_prop_def)

lemma get_prop_Inl: "get_prop v k = Inl e \<longleftrightarrow> (v = JUndefined \<or> v = JNull) \<and> e = (if v = JNull then cannot_read ''null'' k else cannot_read ''undefined'' k)"
  by (cases v) auto

subsection \<open>Composition of quiet computations\<close>

lemma quiet_ret: "quiet P (ret x)"
  by (simp add: quiet_def ret_def)

lemma quiet_throw: "quiet P (throw e)"
  by (simp add: quiet_def throw_def)

lemma quiet_lift: "quiet P (lift r)"
  by (simp add: quiet_def lift_def)

lemma quiet_console_error: "quiet P (console_error l v)"
  by (simp add: quiet_def console_error_def)

lemma quiet_date_now: "quiet P (date_now env)"
  by (simp add: quiet_def date_now_def)

lemma quiet_axios_request: "P req \<Longrightarrow> quiet P (axios_request env req)"
  by (simp add: quiet_def axios_request_def)

lemma quiet_seq:
  assumes "quiet P m" and "\<And>x. quiet P (f x)"
  shows "quiet P (seq m f)"
  unfolding quiet_def
proof
  fix s
  obtain s1 r where ms: "m s = (s1, r)"
    by (cases "m s")
  from assms(1) ms obtain n1 where 1: "emitted s1 = emitted s"
      "error_listeners s1 = error_listeners s" "calls s1 = calls s @ n1" "list_all P n1"
    unfolding quiet_def by (metis fst_conv)
  show "emitted (fst (seq m f s)) = emitted s \<and>
        error_listeners (fst (seq m f s)) = error_listeners s \<and>
        (\<exists>new. calls (fst (seq m f s)) = calls s @ new \<and> list_all P new)"
  proof (cases r)
    case (Inl e)
    with ms 1 show ?thesis
      by (auto simp: seq_def)
  next
    case (Inr x)
    from assms(2)[of x] obtain n2 where 2: "emitted (fst (f x s1)) = emitted s1"
        "error_listeners (fst (f x s1)) = error_listeners s1"
        "calls (fst (f x s1)) = calls s1 @ n2" "list_all P n2"
      unfolding quiet_def by metis
    have "seq m f s = f x s1"
      using ms Inr by (simp add: seq_def)
    with 1 2 show ?thesis
      by auto
  qed
qed

lemma quiet_try_catch:
  assumes "quiet P m" and "\<And>e. quiet P (h e)"
  shows "quiet P (try_catch m h)"
  unfolding quiet_def
proof
  fix s
  obtain s1 r where ms: "m s = (s1, r)"
    by (cases "m s")
  from assms(1) ms obtain n1 where 1: "emitted s1 = emitted s"
      "error_listeners s1 = error_listeners s" "calls s1 = calls s @ n1" "list_all P n1"
    unfolding quiet_def by (metis fst_conv)
  show "emitted (fst (try_catch m h s)) = emitted s \<and>
        error_listeners (fst (try_catch m h s)) = error_listeners s \<and>
        (\<exists>new. calls (fst (try_catch m h s)) = calls s @ new \<and> list_all P new)"
  proof (cases r)
    case (Inr x)
    with ms 1 show ?thesis
      by (auto simp: try_catch_def)
  next
    case (Inl e)
    from assms(2)[of e] obtain n2 where 2: "emitted (fst (h e s1)) = emitted s1"
        "error_listeners (fst (h e s1)) = error_listeners s1"
        "calls (fst (h e s1)) = calls s1 @ n2" "list_all P n2"
      unfolding quiet_def by metis
    have "try_catch m h s = h e s1"
      using ms Inl by (simp add: try_catch_def)
    with 1 2 show ?thesis
      by auto
  qed
qed

lemma quiet_if: "quiet P a \<Longrightarrow> quiet P b \<Longrightarrow> quiet P (if c then a else b)"
  by simp

lemmas quiet_intros = quiet_ret quiet_throw quiet_lift quiet_console_error quiet_date_now
  quiet_seq quiet_try_catch quiet_if

lemma quiet_getMicrosoftToken:
  "P (ms_token_request p c r) \<Longrightarrow> quiet P (getMicrosoftToken env p c r)"
  unfolding getMicrosoftToken_def by (intro quiet_intros quiet_axios_request)

lemma quiet_getXboxLiveToken: "P (xbl_request a) \<Longrightarrow> quiet P (getXboxLiveToken env a)"
  unfolding getXboxLiveToken_def by (intro quiet_intros quiet_axios_request)

lemma quiet_getXSTSToken: "P (xsts_request a) \<Longrightarrow> quiet P (getXSTSToken env a)"
  unfolding getXSTSToken_def by (intro quiet_intros quiet_axios_request)

lemma quiet_getMinecraftToken: "P (mc_token_request a) \<Longrightarrow> quiet P (getMinecraftToken env a)"
  unfolding getMinecraftToken_def by (intro quiet_intros quiet_axios_request)

lemma quiet_getMinecraftProfile: "P (profile_request a) \<Longrightarrow> quiet P (getMinecraftProfile env a)"
  unfolding getMinecraftProfile_def by (intro quiet_intros quiet_axios_request)

lemma quiet_expiry: "quiet P (expiry env d)"
  unfolding expiry_def by (intro quiet_intros)

text \<open>
  The handler of both orchestrations: emit the error, then throw it, unless a listener
  threw first.
\<close>

lemma notify_then_throw:
  "seq (emit_error e) (\<lambda>_. throw e) s =
     (s\<lparr>emitted := emitted s @ [e]\<rparr>, Inl (propagated s e))"
  by (cases "error_listeners s")
     (simp_all add: seq_def emit_error_def throw_def propagated_def split: option.splits)

lemma propagated_returning:
  "run_listeners (error_listeners s) e = None \<Longrightarrow> propagated s e = e"
  by (simp add: propagated_def)

lemma propagated_frame:
  "error_listeners s' = error_listeners s \<Longrightarrow> propagated s' e = propagated s e"
  by (simp add: propagated_def)

lemma notify_emitted:
  assumes q: "quiet P m"
    and run: "try_catch m (\<lambda>error. seq (emit_error error) (\<lambda>_. throw error)) s = (s', r)"
  shows "case r of
           Inl x \<Rightarrow> \<exists>e. emitted s' = emitted s @ [e] \<and> x = propagated s e
         | Inr y \<Rightarrow> emitted s' = emitted s"
proof -
  obtain s1 r1 where ms: "m s = (s1, r1)"
    by (cases "m s")
  from q ms have em: "emitted s1 = emitted s" and li: "error_listeners s1 = error_listeners s"
    unfolding quiet_def by (metis fst_conv)+
  show ?thesis
  proof (cases r1)
    case (Inl e)
    with ms run em propagated_frame[OF li] show ?thesis
      by (auto simp: try_catch_def notify_then_throw)
  next
    case (Inr x)
    with ms run em show ?thesis
      by (auto simp: try_catch_def)
  qed
qed

lemma notify_calls:
  "calls (fst (try_catch m (\<lambda>error. seq (emit_error error) (\<lambda>_. throw error)) s)) =
   calls (fst (m s))"
  by (cases "m s") (auto simp: try_catch_def notify_then_throw split: sum.splits)

section \<open>The stages, one request each\<close>

lemma getMicrosoftToken_ticks: "ticks (fst (getMicrosoftToken env p c r s)) = ticks s"
  by (simp add: getMicrosoftToken_def stage_defs split: net_reply.splits sum.splits)

lemma getXboxLiveToken_ticks: "ticks (fst (getXboxLiveToken env a s)) = ticks s"
  by (simp add: getXboxLiveToken_def stage_defs split: net_reply.splits sum.splits)

lemma getXSTSToken_ticks: "ticks (fst (getXSTSToken env a s)) = ticks s"
  by (simp add: getXSTSToken_def stage_defs split: net_reply.splits sum.splits)

lemma getMinecraftToken_ticks: "ticks (fst (getMinecraftToken env a s)) = ticks s"
  by (simp add: getMinecraftToken_def stage_defs split: net_reply.splits sum.splits)

lemma getMinecraftProfile_ticks: "ticks (fst (getMinecraftProfile env a s)) = ticks s"
  by (simp add: getMinecraftProfile_def stage_defs split: net_reply.splits sum.splits)

subsection \<open>What a stage that returns has done\<close>

lemma getMicrosoftToken_sent:
  "getMicrosoftToken env p c r s = (s', Inr d) \<Longrightarrow>
   s' = s\<lparr>calls := calls s @ [ms_token_request p c r]\<rparr>"
  by (auto simp: getMicrosoftToken_def stage_defs split: sum.splits)

lemma getXboxLiveToken_sent:
  "getXboxLiveToken env a s = (s', Inr d) \<Longrightarrow> s' = s\<lparr>calls := calls s @ [xbl_request a]\<rparr>"
  by (auto simp: getXboxLiveToken_def stage_defs split: sum.splits)

lemma getMicrosoftToken_Inr:
  "getMicrosoftToken env p c r s = (s', Inr d) \<Longrightarrow>
   \<exists>st. transport env (ms_token_request p c r) = Reply st d \<and> 200 \<le> st \<and> st < 300"
  by (auto simp: getMicrosoftToken_def stage_defs split: net_reply.splits if_splits)

lemma getMinecraftToken_Inr:
  "getMinecraftToken env x s = (s', Inr d) \<Longrightarrow>
   \<exists>st. transport env (mc_token_request x) = Reply st d \<and> 200 \<le> st \<and> st < 300"
  by (auto simp: getMinecraftToken_def stage_defs split: net_reply.splits if_splits)

lemma getMinecraftProfile_Inr:
  "getMinecraftProfile env a s = (s', Inr d) \<Longrightarrow>
   truthy d \<and> truthy (opt_prop d (of_ascii ''id'')) \<and>
   (\<exists>st. transport env (profile_request a) = Reply st d \<and> 200 \<le> st \<and> st < 300)"
  by (auto simp: getMinecraftProfile_def stage_defs truthy_get_prop
      split: net_reply.splits if_splits)

subsection \<open>The run of a stage on a given reply\<close>

lemma getMicrosoftToken_ok:
  "transport env (ms_token_request p c r) = Reply st d \<Longrightarrow> 200 \<le> st \<Longrightarrow> st < 300 \<Longrightarrow>
   getMicrosoftToken env p c r s = (s\<lparr>calls := calls s @ [ms_token_request p c r]\<rparr>, Inr d)"
  by (simp add: getMicrosoftToken_def stage_defs)

lemma getXboxLiveToken_ok:
  "transport env (xbl_request a) = Reply st d \<Longrightarrow> 200 \<le> st \<Longrightarrow> st < 300 \<Longrightarrow>
   getXboxLiveToken env a s = (s\<lparr>calls := calls s @ [xbl_request a]\<rparr>, Inr d)"
  by (simp add: getXboxLiveToken_def stage_defs)

lemma getMinecraftToken_ok:
  "transport env (mc_token_request x) = Reply st d \<Longrightarrow> 200 \<le> st \<Longrightarrow> st < 300 \<Longrightarrow>
   getMinecraftToken env x s = (s\<lparr>calls := calls s @ [mc_token_request x]\<rparr>, Inr d)"
  by (simp add: getMinecraftToken_def stage_defs)

lemma getMinecraftProfile_ok:
  "transport env (profile_request a) = Reply st d \<Longrightarrow> 200 \<le> st \<Longrightarrow> st < 300 \<Longrightarrow>
   truthy d \<Longrightarrow> truthy (opt_prop d (of_ascii ''id'')) \<Longrightarrow>
   getMinecraftProfile env a s = (s\<lparr>calls := calls s @ [profile_request a]\<rparr>, Inr d)"
  by (simp add: getMinecraftProfile_def stage_defs truthy_get_prop)

lemma getXSTSToken_no_xbox_account:
  assumes "transport env (xsts_request t) = Reply 401 d"
    and "get_prop d (of_ascii ''XErr'') = Inr (JNum 2148916233)"
  shows "getXSTSToken env t s =
    (s\<lparr>calls := calls s @ [xsts_request t],
       console := console s @
         [(msg_xsts_token_failed,
           js_or d (JStr (of_ascii ''Request failed with status code '' @ number_to_string 401)))]\<rparr>,
     Inl (Error (msg_no_xbox_account @ ErrorCode_NO_XBOX_ACCOUNT)))"
  using assms
  by (simp add: getXSTSToken_def stage_defs error_response_data_def error_response_status_def)

lemma getMinecraftProfile_not_found:
  assumes "transport env (profile_request a) = Reply 404 d"
  shows "getMinecraftProfile env a s =
    (s\<lparr>calls := calls s @ [profile_request a],
       console := console s @
         [(msg_profile_failed,
           js_or d (JStr (of_ascii ''Request failed with status code '' @ number_to_string 404)))]\<rparr>,
     Inl (Error (msg_not_purchased @ ErrorCode_NO_MINECRAFT)))"
  using assms
  by (simp add: getMinecraftProfile_def stage_defs error_response_data_def error_response_status_def)

lemma getMinecraftProfile_missing_id:
  assumes "transport env (profile_request a) = Reply st d" and "200 \<le> st" and "st < 300"
    and "\<not> truthy d \<or> \<not> truthy (opt_prop d (of_ascii ''id''))"
  shows "getMinecraftProfile env a s =
    (s\<lparr>calls := calls s @ [profile_request a],
       console := console s @
         [(msg_profile_failed, JStr (msg_profile_not_found @ ErrorCode_NO_MINECRAFT))]\<rparr>,
     Inl (Error (msg_profile_failed @ of_ascii '': '' @
                 msg_profile_not_found @ ErrorCode_NO_MINECRAFT)))"
proof -
  have ne: "msg_profile_not_found @ ErrorCode_NO_MINECRAFT \<noteq> []"
    by (simp add: msg_profile_not_found_def)
  show ?thesis
  proof (cases "truthy d")
    case False
    with assms(1-3) ne show ?thesis
      by (simp add: getMinecraftProfile_def stage_defs error_response_data_def
          error_response_status_def js_or_def opt_prop_simps)
  next
    case True
    with assms have "\<not> truthy (opt_prop d (of_ascii ''id''))"
      by simp
    with True assms(1-3) ne show ?thesis
      by (simp add: getMinecraftProfile_def stage_defs error_response_data_def
          error_response_status_def js_or_def truthy_get_prop opt_prop_simps)
  qed
qed

subsection \<open>The sample environment\<close>

lemma route_simps:
  "route r1 r2 r3 r4 r5 (ms_token_request p c r) = r1"
  "route r1 r2 r3 r4 r5 (xbl_request a) = r2"
  "route r1 r2 r3 r4 r5 (xsts_request a) = r3"
  "route r1 r2 r3 r4 r5 (mc_token_request x) = r4"
  "route r1 r2 r3 r4 r5 (profile_request a) = r5"
  using url_distinct
  by (auto simp add: route_def ms_token_request_def xbl_request_def xsts_request_def
      mc_token_request_def profile_request_def)

lemma demo_transport: "transport (demo_env r1 r2 r3 r4 r5) = route r1 r2 r3 r4 r5"
  by (simp add: demo_env_def)

lemma demo_stage1:
  "getMicrosoftToken (demo_env (Reply 200 d) r2 r3 r4 r5) p c r s =
     (s\<lparr>calls := calls s @ [ms_token_request p c r]\<rparr>, Inr d)"
  by (rule getMicrosoftToken_ok[where st = 200]) (simp_all add: demo_transport route_simps)

lemma demo_stage2:
  "getXboxLiveToken (demo_env r1 (Reply 200 d) r3 r4 r5) a s =
     (s\<lparr>calls := calls s @ [xbl_request a]\<rparr>, Inr d)"
  by (rule getXboxLiveToken_ok[where st = 200]) (simp_all add: demo_transport route_simps)

lemma demo_stage3:
  "getXSTSToken (demo_env r1 r2 (Reply 200 xsts_body) r4 r5) a s =
     (s\<lparr>calls := calls s @ [xsts_request a]\<rparr>, Inr demo_xsts)"
  by (simp add: getXSTSToken_def stage_defs demo_transport route_simps xsts_body_def
      demo_xsts_def of_ascii_inj)

lemma demo_stage4:
  "getMinecraftToken (demo_env r1 r2 r3 (Reply 200 d) r5) x s =
     (s\<lparr>calls := calls s @ [mc_token_request x]\<rparr>, Inr d)"
  by (rule getMinecraftToken_ok[where st = 200]) (simp_all add: demo_transport route_simps)

lemma demo_stage5:
  "getMinecraftProfile (demo_env r1 r2 r3 r4 (Reply 200 profile_body)) a s =
     (s\<lparr>calls := calls s @ [profile_request a]\<rparr>, Inr profile_body)"
  by (rule getMinecraftProfile_ok[where st = 200])
     (simp_all add: demo_transport route_simps profile_body_def opt_prop_simps of_ascii_inj
       of_ascii_Nil)

lemma demo_reads:
  "get_prop ms_body (of_ascii ''access_token'') = Inr (JStr (of_ascii ''ms-access''))"
  "get_prop xbl_body (of_ascii ''Token'') = Inr (JStr (of_ascii ''xbl-ticket''))"
  "get_prop mc_body (of_ascii ''access_token'') = Inr (JStr (of_ascii ''mc-access''))"
  by (simp_all add: ms_body_def xbl_body_def mc_body_def)

section \<open>Full login\<close>

text \<open>
  Claim C1. When all five stages of \<open>completeLogin\<close> succeed, the call returns a
  result whose \<open>profile.id\<close> and \<open>profile.name\<close> are the \<open>id\<close> and \<open>name\<close> of the
  body of the profile response, and whose two expiry timestamps are the reading of the
  clock taken when each is computed plus \<open>expires_in * 1000\<close> of the body of the
  platform-token response and of the service-token response (exactly, for a numeric
  \<open>expires_in\<close>; numbers are exact integers here, which agree with the doubles of
  the runtime as long as the values stay below \<open>2^53\<close>).
\<close>

theorem completeLogin_success:
  assumes st1: "getMicrosoftToken env p authCode False s = (s1, Inr msTokenData)"
    and a1: "get_prop msTokenData (of_ascii ''access_token'') = Inr ms_access"
    and st2: "getXboxLiveToken env ms_access s1 = (s2, Inr xblTokenData)"
    and a2: "get_prop xblTokenData (of_ascii ''Token'') = Inr xblToken"
    and st3: "getXSTSToken env xblToken s2 = (s3, Inr xstsTokenData)"
    and st4: "getMinecraftToken env xstsTokenData s3 = (s4, Inr mcTokenData)"
    and a4: "get_prop mcTokenData (of_ascii ''access_token'') = Inr mc_access"
    and st5: "getMinecraftProfile env mc_access s4 = (s5, Inr mcProfileData)"
  shows "\<exists>r. completeLogin env p authCode s = (s5\<lparr>ticks := ticks s + 2\<rparr>, Inr r) \<and>
    (\<exists>st. transport env (profile_request mc_access) = Reply st mcProfileData) \<and>
    profile_id (profile r) = opt_prop mcProfileData (of_ascii ''id'') \<and>
    profile_name (profile r) = opt_prop mcProfileData (of_ascii ''name'') \<and>
    (\<exists>st. transport env (ms_token_request p authCode False) = Reply st msTokenData) \<and>
    expires_at (microsoft r) =
      js_plus (Num (clock env (ticks s)))
        (js_times (to_number (string_to_number env)
                     (opt_prop msTokenData (of_ascii ''expires_in''))) (Num 1000)) \<and>
    (\<exists>st. transport env (mc_token_request xstsTokenData) = Reply st mcTokenData) \<and>
    mc_expires_at (minecraft r) =
      js_plus (Num (clock env (ticks s + 1)))
        (js_times (to_number (string_to_number env)
                     (opt_prop mcTokenData (of_ascii ''expires_in''))) (Num 1000)) \<and>
    (\<forall>n. opt_prop msTokenData (of_ascii ''expires_in'') = JNum n \<longrightarrow>
       expires_at (microsoft r) = Num (clock env (ticks s) + n * 1000)) \<and>
    (\<forall>n. opt_prop mcTokenData (of_ascii ''expires_in'') = JNum n \<longrightarrow>
       mc_expires_at (minecraft r) = Num (clock env (ticks s + 1) + n * 1000))"
proof -
  have t5: "ticks s5 = ticks s"
    using getMicrosoftToken_ticks[of env p authCode False s]
      getXboxLiveToken_ticks[of env ms_access s1] getXSTSToken_ticks[of env xblToken s2]
      getMinecraftToken_ticks[of env xstsTokenData s3]
      getMinecraftProfile_ticks[of env mc_access s4]
    by (simp add: st1 st2 st3 st4 st5)
  from getMinecraftProfile_Inr[OF st5] have tr: "truthy mcProfileData"
    and up5: "\<exists>st. transport env (profile_request mc_access) = Reply st mcProfileData"
    by auto
  from getMicrosoftToken_Inr[OF st1]
  have up1: "\<exists>st. transport env (ms_token_request p authCode False) = Reply st msTokenData"
    by auto
  from getMinecraftToken_Inr[OF st4]
  have up4: "\<exists>st. transport env (mc_token_request xstsTokenData) = Reply st mcTokenData"
    by auto
  note g1 = get_prop_total[OF a1] and g4 = get_prop_total[OF a4] and g5 = truthy_get_prop[OF tr]
  note st2' = st2[unfolded get_prop_opt[OF a1]] and st5' = st5[unfolded get_prop_opt[OF a4]]
  have run: "completeLogin env p authCode s =
    (s5\<lparr>ticks := ticks s + 2\<rparr>,
     Inr \<lparr>microsoft =
            \<lparr>access_token = opt_prop msTokenData (of_ascii ''access_token''),
             refresh_token = opt_prop msTokenData (of_ascii ''refresh_token''),
             expires_at = js_plus (Num (clock env (ticks s)))
               (js_times (to_number (string_to_number env)
                            (opt_prop msTokenData (of_ascii ''expires_in''))) (Num 1000))\<rparr>,
          minecraft =
            \<lparr>mc_access_token = opt_prop mcTokenData (of_ascii ''access_token''),
             mc_expires_at = js_plus (Num (clock env (ticks s + 1)))
               (js_times (to_number (string_to_number env)
                            (opt_prop mcTokenData (of_ascii ''expires_in''))) (Num 1000))\<rparr>,
          profile =
            \<lparr>profile_id = opt_prop mcProfileData (of_ascii ''id''),
             profile_name = opt_prop mcProfileData (of_ascii ''name''),
             skins = opt_prop mcProfileData (of_ascii ''skins''),
             capes = opt_prop mcProfileData (of_ascii ''capes'')\<rparr>,
          user =
            \<lparr>username = opt_prop mcProfileData (of_ascii ''name''),
             uuid = opt_prop mcProfileData (of_ascii ''id''),
             user_type = of_ascii ''microsoft''\<rparr>\<rparr>)"
    by (simp add: completeLogin_def io_defs st1 st2' a2 st3 st4 st5' g1 g4 g5 expiry_def
        date_now_def t5)
  show ?thesis
    unfolding run using up1 up4 up5 by simp
qed

theorem completeLogin_success_witness:
  "\<exists>r. snd (completeLogin
              (demo_env (Reply 200 ms_body) (Reply 200 xbl_body) (Reply 200 xsts_body)
                 (Reply 200 mc_body) (Reply 200 profile_body))
              demo_provider (JStr (of_ascii ''auth-code'')) initial_state) = Inr r \<and>
        profile_id (profile r) = JStr (of_ascii ''0123abcd'') \<and>
        profile_name (profile r) = JStr (of_ascii ''Steve'') \<and>
        expires_at (microsoft r) = Num (1700000000000 + 3600 * 1000) \<and>
        mc_expires_at (minecraft r) = Num (1700000000001 + 86400 * 1000)"
proof -
  have ids: "opt_prop profile_body (of_ascii ''id'') = JStr (of_ascii ''0123abcd'')"
    "opt_prop profile_body (of_ascii ''name'') = JStr (of_ascii ''Steve'')"
    "opt_prop ms_body (of_ascii ''expires_in'') = JNum 3600"
    "opt_prop mc_body (of_ascii ''expires_in'') = JNum 86400"
    by (simp_all add: profile_body_def ms_body_def mc_body_def opt_prop_simps of_ascii_inj)
  from completeLogin_success[where p = demo_provider and authCode = "JStr (of_ascii ''auth-code'')"
      and s = initial_state
      and env = "demo_env (Reply 200 ms_body) (Reply 200 xbl_body) (Reply 200 xsts_body)
                   (Reply 200 mc_body) (Reply 200 profile_body)",
      OF demo_stage1 demo_reads(1) demo_stage2 demo_reads(2) demo_stage3
      demo_stage4 demo_reads(3) demo_stage5]
  show ?thesis
    by (auto simp: ids demo_env_def initial_state_def)
qed

text \<open>
  Claim C2. When the first two stages of \<open>completeLogin\<close> succeed and the
  security-token service answers the stage-3 request with status 401 and a body whose
  \<open>XErr\<close> is the number 2148916233, \<open>completeLogin\<close> rejects with the no-Xbox-account
  error (its message ends with the code \<open>no_xbox_account\<close>), and the run has sent the
  three requests of stages 1 to 3 only: none goes to the address of stage 4 or of stage 5.
  The listeners on the error channel are taken to return when called with that error.
\<close>

theorem completeLogin_no_xbox_account:
  assumes st1: "getMicrosoftToken env p authCode False s = (s1, Inr msTokenData)"
    and a1: "get_prop msTokenData (of_ascii ''access_token'') = Inr ms_access"
    and st2: "getXboxLiveToken env ms_access s1 = (s2, Inr xblTokenData)"
    and a2: "get_prop xblTokenData (of_ascii ''Token'') = Inr xblToken"
    and reply: "transport env (xsts_request xblToken) = Reply 401 body"
    and xerr: "get_prop body (of_ascii ''XErr'') = Inr (JNum 2148916233)"
    and hear: "run_listeners (error_listeners s)
                 (Error (msg_no_xbox_account @ ErrorCode_NO_XBOX_ACCOUNT)) = None"
  shows "\<exists>s'. completeLogin env p authCode s =
           (s', Inl (Error (msg_no_xbox_account @ ErrorCode_NO_XBOX_ACCOUNT))) \<and>
         calls s' = calls s @
           [ms_token_request p authCode False, xbl_request ms_access, xsts_request xblToken] \<and>
         list_all (\<lambda>q. req_url q \<noteq> mcTokenUrl \<and> req_url q \<noteq> profileUrl)
           [ms_token_request p authCode False, xbl_request ms_access, xsts_request xblToken]"
proof -
  define E where "E = Error (msg_no_xbox_account @ ErrorCode_NO_XBOX_ACCOUNT)"
  define S where "S = s2\<lparr>calls := calls s2 @ [xsts_request xblToken],
       console := console s2 @
         [(msg_xsts_token_failed,
           js_or body (JStr (of_ascii ''Request failed with status code '' @
                             number_to_string 401)))],
       emitted := emitted s2 @ [E]\<rparr>"
  have li: "error_listeners s2 = error_listeners s"
    by (simp add: getMicrosoftToken_sent[OF st1] getXboxLiveToken_sent[OF st2])
  have run: "completeLogin env p authCode s = (S, Inl E)"
    unfolding completeLogin_def try_catch_def
    by (simp add: seq_def lift_def st1 a1 st2 a2 emit_error_def throw_def li hear
        getXSTSToken_no_xbox_account[OF reply xerr] S_def E_def)
  have "calls S = calls s @
           [ms_token_request p authCode False, xbl_request ms_access, xsts_request xblToken]"
    by (simp add: S_def getMicrosoftToken_sent[OF st1] getXboxLiveToken_sent[OF st2])
  moreover have "list_all (\<lambda>q. req_url q \<noteq> mcTokenUrl \<and> req_url q \<noteq> profileUrl)
           [ms_token_request p authCode False, xbl_request ms_access, xsts_request xblToken]"
    by (simp add: ms_token_request_def xbl_request_def xsts_request_def url_distinct)
  ultimately show ?thesis
    using run by (simp add: E_def)
qed

theorem completeLogin_no_xbox_account_witness:
  "\<exists>s'. completeLogin
           (demo_env (Reply 200 ms_body) (Reply 200 xbl_body)
              (Reply 401 (JObj [(of_ascii ''XErr'', JNum 2148916233)]))
              (Reply 200 mc_body) (Reply 200 profile_body))
           demo_provider (JStr (of_ascii ''auth-code'')) heard_state =
         (s', Inl (Error (msg_no_xbox_account @ of_ascii ''no_xbox_account''))) \<and>
       calls s' =
         [ms_token_request demo_provider (JStr (of_ascii ''auth-code'')) False,
          xbl_request (JStr (of_ascii ''ms-access'')),
          xsts_request (JStr (of_ascii ''xbl-ticket''))]"
proof -
  let ?env = "demo_env (Reply 200 ms_body) (Reply 200 xbl_body)
                (Reply 401 (JObj [(of_ascii ''XErr'', JNum 2148916233)]))
                (Reply 200 mc_body) (Reply 200 profile_body)"
  have reply: "transport ?env (xsts_request (JStr (of_ascii ''xbl-ticket''))) =
      Reply 401 (JObj [(of_ascii ''XErr'', JNum 2148916233)])"
    by (simp add: demo_transport route_simps)
  have xerr: "get_prop (JObj [(of_ascii ''XErr'', JNum 2148916233)]) (of_ascii ''XErr'') =
      Inr (JNum 2148916233)"
    by simp
  have hear: "run_listeners (error_listeners heard_state)
      (Error (msg_no_xbox_account @ ErrorCode_NO_XBOX_ACCOUNT)) = None"
    by (simp add: heard_state_def)
  from completeLogin_no_xbox_account[where p = demo_provider
      and authCode = "JStr (of_ascii ''auth-code'')" and s = heard_state and env = ?env,
      OF demo_stage1 demo_reads(1) demo_stage2 demo_reads(2) reply xerr hear]
  show ?thesis
    by (auto simp: heard_state_def initial_state_def ErrorCode_NO_XBOX_ACCOUNT_def)
qed

section \<open>Failures of the profile stage in a full login\<close>

lemma notify_run:
  "m s = (s1, Inl e) \<Longrightarrow>
   try_catch m (\<lambda>error. seq (emit_error error) (\<lambda>_. throw error)) s =
     (s1\<lparr>emitted := emitted s1 @ [e]\<rparr>, Inl (propagated s1 e))"
  by (simp add: try_catch_def notify_then_throw)

lemma quiet_listeners:
  "quiet P m \<Longrightarrow> m s = (s', r) \<Longrightarrow> error_listeners s' = error_listeners s"
  unfolding quiet_def by (metis fst_conv)

text \<open>
  When the first four stages succeed and the profile stage throws \<open>e\<close>, the full login
  emits \<open>e\<close> and ends with what the listeners let through.
\<close>

lemma completeLogin_stage5_fails:
  assumes st1: "getMicrosoftToken env p authCode False s = (s1, Inr msTokenData)"
    and a1: "get_prop msTokenData (of_ascii ''access_token'') = Inr ms_access"
    and st2: "getXboxLiveToken env ms_access s1 = (s2, Inr xblTokenData)"
    and a2: "get_prop xblTokenData (of_ascii ''Token'') = Inr xblToken"
    and st3: "getXSTSToken env xblToken s2 = (s3, Inr xstsTokenData)"
    and st4: "getMinecraftToken env xstsTokenData s3 = (s4, Inr mcTokenData)"
    and a4: "get_prop mcTokenData (of_ascii ''access_token'') = Inr mc_access"
    and st5: "getMinecraftProfile env mc_access s4 = (s5, Inl e)"
  shows "completeLogin env p authCode s =
           (s5\<lparr>emitted := emitted s5 @ [e]\<rparr>, Inl (propagated s e))"
proof -
  have "error_listeners s5 = error_listeners s"
    using quiet_listeners[OF quiet_getMicrosoftToken[of "\<lambda>q. True"] st1]
      quiet_listeners[OF quiet_getXboxLiveToken[of "\<lambda>q. True"] st2]
      quiet_listeners[OF quiet_getXSTSToken[of "\<lambda>q. True"] st3]
      quiet_listeners[OF quiet_getMinecraftToken[of "\<lambda>q. True"] st4]
      quiet_listeners[OF quiet_getMinecraftProfile[of "\<lambda>q. True"] st5]
    by simp
  then have "propagated s5 e = propagated s e"
    by (rule propagated_frame)
  moreover have "completeLogin env p authCode s =
      (s5\<lparr>emitted := emitted s5 @ [e]\<rparr>, Inl (propagated s5 e))"
    unfolding completeLogin_def
    by (rule notify_run) (simp add: seq_def lift_def st1 a1 st2 a2 st3 st4 a4 st5)
  ultimately show ?thesis
    by simp
qed

text \<open>
  The handler of the profile stage maps status 404 alone to the no-license error. Any
  other status outside 2xx gives the generic profile-fetch error, with the \<open>message\<close>
  of the body when it has one and the message of the HTTP client otherwise; whether the
  body has an \<open>id\<close> plays no part.
\<close>

lemma getMinecraftProfile_other_status:
  assumes "transport env (profile_request a) = Reply st d"
    and "\<not> (200 \<le> st \<and> st < 300)" and "st \<noteq> 404"
  shows "getMinecraftProfile env a s =
    (s\<lparr>calls := calls s @ [profile_request a],
       console := console s @
         [(msg_profile_failed,
           js_or d (JStr (of_ascii ''Request failed with status code '' @ number_to_string st)))]\<rparr>,
     Inl (Error (msg_profile_failed @ of_ascii '': '' @
       to_string (js_or (opt_prop d (of_ascii ''message''))
          (JStr (of_ascii ''Request failed with status code '' @ number_to_string st))))))"
proof -
  from assms(2) have "axios_settle (Reply st d) =
      Inl (AxiosError (of_ascii ''Request failed with status code '' @ number_to_string st)
             (Some \<lparr>status = st, data = d\<rparr>))"
    by (auto simp: axios_settle_def)
  with assms(1,3) show ?thesis
    by (simp add: getMinecraftProfile_def io_defs axios_request_def console_error_def
        error_response_data_def error_response_status_def)
qed

lemma code_500: "number_to_string 500 = of_ascii ''500''"
  by (simp add: number_to_string_def dec_nat.simps of_ascii_def)

text \<open>
  Claim C3, as amended. Let the first four stages of \<open>completeLogin\<close> succeed and let
  the listeners on the error channel return. When the profile service answers with
  status 404, \<open>completeLogin\<close> rejects with the not-purchased error, whose message ends
  with the code \<open>no_minecraft_license\<close>. When it answers with a 2xx status and a body
  without \<open>id\<close> (an absent or falsy body, or an absent or falsy \<open>id\<close>),
  \<open>completeLogin\<close> rejects with the generic profile-fetch-failed error, whose message
  embeds the missing-profile message and ends with the same code. When it answers with
  any other status, \<open>completeLogin\<close> rejects with the generic profile-fetch-failed
  error that carries the \<open>message\<close> of the body or else the message of the HTTP
  client, whether or not the body has an \<open>id\<close>.
\<close>

theorem completeLogin_profile_failure:
  assumes st1: "getMicrosoftToken env p authCode False s = (s1, Inr msTokenData)"
    and a1: "get_prop msTokenData (of_ascii ''access_token'') = Inr ms_access"
    and st2: "getXboxLiveToken env ms_access s1 = (s2, Inr xblTokenData)"
    and a2: "get_prop xblTokenData (of_ascii ''Token'') = Inr xblToken"
    and st3: "getXSTSToken env xblToken s2 = (s3, Inr xstsTokenData)"
    and st4: "getMinecraftToken env xstsTokenData s3 = (s4, Inr mcTokenData)"
    and a4: "get_prop mcTokenData (of_ascii ''access_token'') = Inr mc_access"
    and reply: "transport env (profile_request mc_access) = Reply st body"
    and noid: "200 \<le> st \<and> st < 300 \<longrightarrow>
                 \<not> truthy body \<or> \<not> truthy (opt_prop body (of_ascii ''id''))"
    and m: "m = (if st = 404 then msg_not_purchased @ ErrorCode_NO_MINECRAFT
                 else if 200 \<le> st \<and> st < 300 then
                   msg_profile_failed @ of_ascii '': '' @
                   msg_profile_not_found @ ErrorCode_NO_MINECRAFT
                 else
                   msg_profile_failed @ of_ascii '': '' @
                   to_string (js_or (opt_prop body (of_ascii ''message''))
                     (JStr (of_ascii ''Request failed with status code '' @
                            number_to_string st))))"
    and hear: "run_listeners (error_listeners s) (Error m) = None"
  shows "(\<exists>s'. completeLogin env p authCode s = (s', Inl (Error m))) \<and>
         (st = 404 \<or> (200 \<le> st \<and> st < 300) \<longrightarrow> sublist ErrorCode_NO_MINECRAFT m)"
proof -
  have "\<exists>s5. getMinecraftProfile env mc_access s4 = (s5, Inl (Error m))"
  proof (cases "st = 404")
    case True
    with reply have "transport env (profile_request mc_access) = Reply 404 body"
      by simp
    from getMinecraftProfile_not_found[OF this, of s4] True m show ?thesis
      by simp
  next
    case False
    show ?thesis
    proof (cases "200 \<le> st \<and> st < 300")
      case True
      with noid have "\<not> truthy body \<or> \<not> truthy (opt_prop body (of_ascii ''id''))"
        by simp
      from getMinecraftProfile_missing_id[OF reply _ _ this, of s4] True False m show ?thesis
        by simp
    next
      case other: False
      from other False m have "m = msg_profile_failed @ of_ascii '': '' @
          to_string (js_or (opt_prop body (of_ascii ''message''))
            (JStr (of_ascii ''Request failed with status code '' @ number_to_string st)))"
        by auto
      with getMinecraftProfile_other_status[OF reply other False, of s4] show ?thesis
        by simp
    qed
  qed
  then obtain s5 where "getMinecraftProfile env mc_access s4 = (s5, Inl (Error m))"
    by blast
  from completeLogin_stage5_fails[OF st1 a1 st2 a2 st3 st4 a4 this]
  have "\<exists>s'. completeLogin env p authCode s = (s', Inl (Error m))"
    by (simp add: propagated_returning[OF hear])
  moreover have "sublist ErrorCode_NO_MINECRAFT m" if "st = 404 \<or> (200 \<le> st \<and> st < 300)"
  proof (cases "st = 404")
    case True
    with m show ?thesis
      by (simp add: sublist_suffix_part)
  next
    case False
    with that m have "m = (msg_profile_failed @ of_ascii '': '' @ msg_profile_not_found) @
        ErrorCode_NO_MINECRAFT"
      by simp
    then show ?thesis
      by (simp only: sublist_suffix_part)
  qed
  ultimately show ?thesis
    by blast
qed

theorem completeLogin_profile_failure_witness:
  "snd (completeLogin
          (demo_env (Reply 200 ms_body) (Reply 200 xbl_body) (Reply 200 xsts_body)
             (Reply 200 mc_body) (Reply 404 JNull))
          demo_provider (JStr (of_ascii ''auth-code'')) heard_state) =
     Inl (Error (msg_not_purchased @ of_ascii ''no_minecraft_license'')) \<and>
   snd (completeLogin
          (demo_env (Reply 200 ms_body) (Reply 200 xbl_body) (Reply 200 xsts_body)
             (Reply 200 mc_body) (Reply 200 (JObj [(of_ascii ''name'', JStr (of_ascii ''Steve''))])))
          demo_provider (JStr (of_ascii ''auth-code'')) heard_state) =
     Inl (Error (msg_profile_failed @ of_ascii '': '' @
                 msg_profile_not_found @ of_ascii ''no_minecraft_license'')) \<and>
   snd (completeLogin
          (demo_env (Reply 200 ms_body) (Reply 200 xbl_body) (Reply 200 xsts_body)
             (Reply 200 mc_body)
             (Reply 403 (JObj [(of_ascii ''message'', JStr (of_ascii ''Forbidden''))])))
          demo_provider (JStr (of_ascii ''auth-code'')) heard_state) =
     Inl (Error (msg_profile_failed @ of_ascii '': Forbidden''))"
proof -
  let ?code = "JStr (of_ascii ''auth-code'')"
  let ?nf = "demo_env (Reply 200 ms_body) (Reply 200 xbl_body) (Reply 200 xsts_body)
               (Reply 200 mc_body) (Reply 404 JNull)"
  let ?noid = "JObj [(of_ascii ''name'', JStr (of_ascii ''Steve''))]"
  let ?mi = "demo_env (Reply 200 ms_body) (Reply 200 xbl_body) (Reply 200 xsts_body)
               (Reply 200 mc_body) (Reply 200 ?noid)"
  let ?forbidden = "JObj [(of_ascii ''message'', JStr (of_ascii ''Forbidden''))]"
  let ?fb = "demo_env (Reply 200 ms_body) (Reply 200 xbl_body) (Reply 200 xsts_body)
               (Reply 200 mc_body) (Reply 403 ?forbidden)"
  let ?a = "JStr (of_ascii ''mc-access'')"
  have hear: "run_listeners (error_listeners heard_state) e = None" for e
    by (simp add: heard_state_def)
  have r1: "transport ?nf (profile_request ?a) = Reply 404 JNull"
    by (simp add: demo_transport route_simps)
  have n1: "200 \<le> (404::int) \<and> (404::int) < 300 \<longrightarrow>
      \<not> truthy JNull \<or> \<not> truthy (opt_prop JNull (of_ascii ''id''))"
    by simp
  have m1: "msg_not_purchased @ of_ascii ''no_minecraft_license'' =
      (if (404::int) = 404 then msg_not_purchased @ ErrorCode_NO_MINECRAFT
       else if 200 \<le> (404::int) \<and> (404::int) < 300 then
         msg_profile_failed @ of_ascii '': '' @ msg_profile_not_found @ ErrorCode_NO_MINECRAFT
       else msg_profile_failed @ of_ascii '': '' @
         to_string (js_or (opt_prop JNull (of_ascii ''message''))
           (JStr (of_ascii ''Request failed with status code '' @ number_to_string 404))))"
    by (simp add: ErrorCode_NO_MINECRAFT_def)
  have r2: "transport ?mi (profile_request ?a) = Reply 200 ?noid"
    by (simp add: demo_transport route_simps)
  have n2: "200 \<le> (200::int) \<and> (200::int) < 300 \<longrightarrow>
      \<not> truthy ?noid \<or> \<not> truthy (opt_prop ?noid (of_ascii ''id''))"
    by (simp add: opt_prop_simps of_ascii_inj)
  have m2: "msg_profile_failed @ of_ascii '': '' @
        msg_profile_not_found @ of_ascii ''no_minecraft_license'' =
      (if (200::int) = 404 then msg_not_purchased @ ErrorCode_NO_MINECRAFT
       else if 200 \<le> (200::int) \<and> (200::int) < 300 then
         msg_profile_failed @ of_ascii '': '' @ msg_profile_not_found @ ErrorCode_NO_MINECRAFT
       else msg_profile_failed @ of_ascii '': '' @
         to_string (js_or (opt_prop ?noid (of_ascii ''message''))
           (JStr (of_ascii ''Request failed with status code '' @ number_to_string 200))))"
    by (simp add: ErrorCode_NO_MINECRAFT_def)
  have r3: "transport ?fb (profile_request ?a) = Reply 403 ?forbidden"
    by (simp add: demo_transport route_simps)
  have n3: "200 \<le> (403::int) \<and> (403::int) < 300 \<longrightarrow>
      \<not> truthy ?forbidden \<or> \<not> truthy (opt_prop ?forbidden (of_ascii ''id''))"
    by simp
  have m3: "msg_profile_failed @ of_ascii '': Forbidden'' =
      (if (403::int) = 404 then msg_not_purchased @ ErrorCode_NO_MINECRAFT
       else if 200 \<le> (403::int) \<and> (403::int) < 300 then
         msg_profile_failed @ of_ascii '': '' @ msg_profile_not_found @ ErrorCode_NO_MINECRAFT
       else msg_profile_failed @ of_ascii '': '' @
         to_string (js_or (opt_prop ?forbidden (of_ascii ''message''))
           (JStr (of_ascii ''Request failed with status code '' @ number_to_string 403))))"
    by (simp add: opt_prop_simps js_or_def of_ascii_def)
  from completeLogin_profile_failure[where p = demo_provider and authCode = ?code
      and s = heard_state and env = ?nf,
      OF demo_stage1 demo_reads(1) demo_stage2 demo_reads(2) demo_stage3 demo_stage4
      demo_reads(3) r1 n1 m1 hear]
  have 1: "snd (completeLogin ?nf demo_provider ?code heard_state) =
     Inl (Error (msg_not_purchased @ of_ascii ''no_minecraft_license''))"
    by auto
  from completeLogin_profile_failure[where p = demo_provider and authCode = ?code
      and s = heard_state and env = ?mi,
      OF demo_stage1 demo_reads(1) demo_stage2 demo_reads(2) demo_stage3 demo_stage4
      demo_reads(3) r2 n2 m2 hear]
  have 2: "snd (completeLogin ?mi demo_provider ?code heard_state) =
     Inl (Error (msg_profile_failed @ of_ascii '': '' @
                 msg_profile_not_found @ of_ascii ''no_minecraft_license''))"
    by auto
  from completeLogin_profile_failure[where p = demo_provider and authCode = ?code
      and s = heard_state and env = ?fb,
      OF demo_stage1 demo_reads(1) demo_stage2 demo_reads(2) demo_stage3 demo_stage4
      demo_reads(3) r3 n3 m3 hear]
  have 3: "snd (completeLogin ?fb demo_provider ?code heard_state) =
     Inl (Error (msg_profile_failed @ of_ascii '': Forbidden''))"
    by auto
  from 1 2 3 show ?thesis
    by blast
qed

text \<open>
  The claim as first stated has every profile answer without \<open>id\<close> end in the
  no-license error. An answer with status 500 and the body \<open>{}\<close> has no \<open>id\<close>, and
  \<open>completeLogin\<close> rejects with the generic error, whose message does not contain the
  code \<open>no_minecraft_license\<close>.
\<close>

theorem completeLogin_generic_error_without_id:
  "completeLogin
     (demo_env (Reply 200 ms_body) (Reply 200 xbl_body) (Reply 200 xsts_body)
        (Reply 200 mc_body) (Reply 500 (JObj [])))
     demo_provider (JStr (of_ascii ''auth-code'')) initial_state =
   (initial_state
      \<lparr>calls :=
         [ms_token_request demo_provider (JStr (of_ascii ''auth-code'')) False,
          xbl_request (JStr (of_ascii ''ms-access'')),
          xsts_request (JStr (of_ascii ''xbl-ticket'')),
          mc_token_request demo_xsts,
          profile_request (JStr (of_ascii ''mc-access''))],
       console :=
         [(msg_profile_failed, JObj [])],
       emitted :=
         [Error (msg_profile_failed @ of_ascii '': Request failed with status code 500'')]\<rparr>,
    Inl (Error (msg_profile_failed @ of_ascii '': Request failed with status code 500''))) \<and>
   \<not> sublist ErrorCode_NO_MINECRAFT
        (msg_profile_failed @ of_ascii '': Request failed with status code 500'')"
proof -
  let ?env = "demo_env (Reply 200 ms_body) (Reply 200 xbl_body) (Reply 200 xsts_body)
        (Reply 200 mc_body) (Reply 500 (JObj []))"
  let ?m = "msg_profile_failed @ of_ascii '': Request failed with status code 500''"
  have reply: "transport ?env (profile_request (JStr (of_ascii ''mc-access''))) =
      Reply 500 (JObj [])"
    by (simp add: demo_transport route_simps)
  have st5: "getMinecraftProfile ?env (JStr (of_ascii ''mc-access'')) s =
      (s\<lparr>calls := calls s @ [profile_request (JStr (of_ascii ''mc-access''))],
         console := console s @ [(msg_profile_failed, JObj [])]\<rparr>,
       Inl (Error ?m))" for s
    using getMinecraftProfile_other_status[OF reply, of s]
    by (simp add: js_or_def opt_prop_simps code_500 of_ascii_def)
  have run: "completeLogin ?env demo_provider (JStr (of_ascii ''auth-code'')) initial_state =
   (initial_state
      \<lparr>calls :=
         [ms_token_request demo_provider (JStr (of_ascii ''auth-code'')) False,
          xbl_request (JStr (of_ascii ''ms-access'')),
          xsts_request (JStr (of_ascii ''xbl-ticket'')),
          mc_token_request demo_xsts,
          profile_request (JStr (of_ascii ''mc-access''))],
       console := [(msg_profile_failed, JObj [])],
       emitted := [Error ?m]\<rparr>,
    Inl (Error ?m))"
    using completeLogin_stage5_fails[where p = demo_provider
        and authCode = "JStr (of_ascii ''auth-code'')" and s = initial_state and env = ?env,
        OF demo_stage1 demo_reads(1) demo_stage2 demo_reads(2) demo_stage3 demo_stage4
        demo_reads(3) st5]
    by (simp add: initial_state_def propagated_def)
  have "\<not> sublist ErrorCode_NO_MINECRAFT ?m"
  proof
    assume "sublist ErrorCode_NO_MINECRAFT ?m"
    then have "set ErrorCode_NO_MINECRAFT \<subseteq> set ?m"
      by (rule set_mono_sublist)
    moreover have "(0x5F :: 16 word) \<in> set ErrorCode_NO_MINECRAFT"
      by (simp add: ErrorCode_NO_MINECRAFT_def of_ascii_def)
    moreover have "(0x5F :: 16 word) \<notin> set ?m"
      by (simp add: msg_profile_failed_def of_ascii_def)
    ultimately show False
      by blast
  qed
  with run show ?thesis
    by blast
qed

section \<open>The profile stage wraps its own error\<close>

text \<open>
  Claim C10. When the profile service answers with a success status and a body without
  \<open>id\<close>, the missing-profile error that \<open>getMinecraftProfile\<close> throws inside its try
  block is caught by the handler of the same function (the console line records its
  message) and the caller gets the generic profile-fetch-failed error, whose message
  embeds the missing-profile message with the code \<open>no_minecraft_license\<close>; this is a
  different error from the one first constructed.
\<close>

theorem getMinecraftProfile_wraps_missing_profile:
  assumes reply: "transport env (profile_request accessToken) = Reply st body"
    and ok: "200 \<le> st" "st < 300"
    and miss: "\<not> truthy body \<or> \<not> truthy (opt_prop body (of_ascii ''id''))"
  shows "getMinecraftProfile env accessToken s =
      (s\<lparr>calls := calls s @ [profile_request accessToken],
         console := console s @
           [(msg_profile_failed, JStr (msg_profile_not_found @ ErrorCode_NO_MINECRAFT))]\<rparr>,
       Inl (Error (msg_profile_failed @ of_ascii '': '' @
                   (msg_profile_not_found @ ErrorCode_NO_MINECRAFT)))) \<and>
    Error (msg_profile_failed @ of_ascii '': '' @
           (msg_profile_not_found @ ErrorCode_NO_MINECRAFT)) \<noteq>
      Error (msg_profile_not_found @ ErrorCode_NO_MINECRAFT) \<and>
    sublist ErrorCode_NO_MINECRAFT
      (msg_profile_failed @ of_ascii '': '' @ (msg_profile_not_found @ ErrorCode_NO_MINECRAFT))"
proof -
  have "length (msg_profile_failed @ of_ascii '': '' @
                (msg_profile_not_found @ ErrorCode_NO_MINECRAFT)) \<noteq>
        length (msg_profile_not_found @ ErrorCode_NO_MINECRAFT)"
    by (simp add: msg_profile_failed_def)
  then have "msg_profile_failed @ of_ascii '': '' @
               (msg_profile_not_found @ ErrorCode_NO_MINECRAFT) \<noteq>
             msg_profile_not_found @ ErrorCode_NO_MINECRAFT"
    by metis
  moreover have "sublist ErrorCode_NO_MINECRAFT
      (msg_profile_failed @ of_ascii '': '' @ (msg_profile_not_found @ ErrorCode_NO_MINECRAFT))"
    using sublist_suffix_part[of ErrorCode_NO_MINECRAFT
        "msg_profile_failed @ of_ascii '': '' @ msg_profile_not_found"]
    by simp
  ultimately show ?thesis
    using getMinecraftProfile_missing_id[OF reply ok miss, of s] by simp
qed

theorem getMinecraftProfile_wraps_missing_profile_witness:
  "snd (getMinecraftProfile
          (demo_env (Reply 200 ms_body) (Reply 200 xbl_body) (Reply 200 xsts_body)
             (Reply 200 mc_body) (Reply 200 (JObj [])))
          (JStr (of_ascii ''mc-access'')) initial_state) =
     Inl (Error (msg_profile_failed @ of_ascii '': '' @
                 msg_profile_not_found @ of_ascii ''no_minecraft_license'')) \<and>
   console (fst (getMinecraftProfile
          (demo_env (Reply 200 ms_body) (Reply 200 xbl_body) (Reply 200 xsts_body)
             (Reply 200 mc_body) (Reply 200 (JObj [])))
          (JStr (of_ascii ''mc-access'')) initial_state)) =
     [(msg_profile_failed, JStr (msg_profile_not_found @ of_ascii ''no_minecraft_license''))]"
proof -
  let ?env = "demo_env (Reply 200 ms_body) (Reply 200 xbl_body) (Reply 200 xsts_body)
             (Reply 200 mc_body) (Reply 200 (JObj []))"
  have reply: "transport ?env (profile_request (JStr (of_ascii ''mc-access''))) =
      Reply 200 (JObj [])"
    by (simp add: demo_transport route_simps)
  have miss: "\<not> truthy (JObj []) \<or> \<not> truthy (opt_prop (JObj []) (of_ascii ''id''))"
    by (simp add: opt_prop_simps)
  from getMinecraftProfile_wraps_missing_profile[OF reply _ _ miss, of initial_state]
  show ?thesis
    by (simp add: initial_state_def ErrorCode_NO_MINECRAFT_def)
qed

section \<open>Token refresh\<close>

lemma getMinecraftProfile_calls:
  "calls (fst (getMinecraftProfile env a s)) = calls s @ [profile_request a]"
  by (simp add: getMinecraftProfile_def stage_defs split: sum.splits)

lemma quiet_refresh_body:
  "quiet (\<lambda>q. req_method q = POST \<and> req_url q \<noteq> profileUrl)
    (seq (getMicrosoftToken env p refreshToken True) (\<lambda>msTokenData.
     seq (lift (get_prop msTokenData (of_ascii ''access_token''))) (\<lambda>ms_access.
     seq (getXboxLiveToken env ms_access) (\<lambda>xblTokenData.
     seq (lift (get_prop xblTokenData (of_ascii ''Token''))) (\<lambda>xblToken.
     seq (getXSTSToken env xblToken) (\<lambda>xstsTokenData.
     seq (getMinecraftToken env xstsTokenData) (\<lambda>mcTokenData.
     seq (lift (get_prop msTokenData (of_ascii ''access_token''))) (\<lambda>r_ms_access.
     seq (lift (get_prop msTokenData (of_ascii ''refresh_token''))) (\<lambda>r_ms_refresh.
     seq (expiry env msTokenData) (\<lambda>r_ms_expires.
     seq (lift (get_prop mcTokenData (of_ascii ''access_token''))) (\<lambda>r_mc_access.
     seq (expiry env mcTokenData) (\<lambda>r_mc_expires.
       ret \<lparr>microsoft =
              \<lparr>access_token = r_ms_access, refresh_token = r_ms_refresh,
               expires_at = r_ms_expires\<rparr>,
            minecraft =
              \<lparr>mc_access_token = r_mc_access, mc_expires_at = r_mc_expires\<rparr>\<rparr>))))))))))))"
  by (intro quiet_intros quiet_expiry quiet_getMicrosoftToken quiet_getXboxLiveToken
      quiet_getXSTSToken quiet_getMinecraftToken)
     (simp_all add: ms_token_request_def xbl_request_def xsts_request_def mc_token_request_def
        url_distinct)

text \<open>
  Claim C4. Whatever the services answer, \<open>refreshTokens\<close> never runs the profile
  fetch: every request a run of \<open>refreshTokens\<close> adds to those sent is a POST to an
  address other than the profile address, whereas every run of \<open>getMinecraftProfile\<close>
  sends a GET to the profile address.
\<close>

theorem refreshTokens_never_fetches_profile:
  "(\<exists>new. calls (fst (refreshTokens env p refreshToken s)) = calls s @ new \<and>
          list_all (\<lambda>q. req_method q = POST \<and> req_url q \<noteq> profileUrl) new) \<and>
   calls (fst (getMinecraftProfile env accessToken s)) = calls s @ [profile_request accessToken] \<and>
   req_method (profile_request accessToken) = GET \<and>
   req_url (profile_request accessToken) = profileUrl"
proof -
  from quiet_refresh_body[of env p refreshToken]
  have "\<exists>new. calls (fst (refreshTokens env p refreshToken s)) = calls s @ new \<and>
          list_all (\<lambda>q. req_method q = POST \<and> req_url q \<noteq> profileUrl) new"
    unfolding refreshTokens_def notify_calls quiet_def by blast
  then show ?thesis
    by (simp add: getMinecraftProfile_calls profile_request_def)
qed

section \<open>Notification of rejections\<close>

lemma quiet_login_body:
  "quiet (\<lambda>q. True)
    (seq (getMicrosoftToken env p authCode False) (\<lambda>msTokenData.
     seq (lift (get_prop msTokenData (of_ascii ''access_token''))) (\<lambda>ms_access.
     seq (getXboxLiveToken env ms_access) (\<lambda>xblTokenData.
     seq (lift (get_prop xblTokenData (of_ascii ''Token''))) (\<lambda>xblToken.
     seq (getXSTSToken env xblToken) (\<lambda>xstsTokenData.
     seq (getMinecraftToken env xstsTokenData) (\<lambda>mcTokenData.
     seq (lift (get_prop mcTokenData (of_ascii ''access_token''))) (\<lambda>mc_access.
     seq (getMinecraftProfile env mc_access) (\<lambda>mcProfileData.
     seq (lift (get_prop msTokenData (of_ascii ''access_token''))) (\<lambda>r_ms_access.
     seq (lift (get_prop msTokenData (of_ascii ''refresh_token''))) (\<lambda>r_ms_refresh.
     seq (expiry env msTokenData) (\<lambda>r_ms_expires.
     seq (lift (get_prop mcTokenData (of_ascii ''access_token''))) (\<lambda>r_mc_access.
     seq (expiry env mcTokenData) (\<lambda>r_mc_expires.
     seq (lift (get_prop mcProfileData (of_ascii ''id''))) (\<lambda>r_id.
     seq (lift (get_prop mcProfileData (of_ascii ''name''))) (\<lambda>r_name.
     seq (lift (get_prop mcProfileData (of_ascii ''skins''))) (\<lambda>r_skins.
     seq (lift (get_prop mcProfileData (of_ascii ''capes''))) (\<lambda>r_capes.
     seq (lift (get_prop mcProfileData (of_ascii ''name''))) (\<lambda>r_username.
     seq (lift (get_prop mcProfileData (of_ascii ''id''))) (\<lambda>r_uuid.
       ret \<lparr>microsoft =
              \<lparr>access_token = r_ms_access, refresh_token = r_ms_refresh,
               expires_at = r_ms_expires\<rparr>,
            minecraft = \<lparr>mc_access_token = r_mc_access, mc_expires_at = r_mc_expires\<rparr>,
            profile =
              \<lparr>profile_id = r_id, profile_name = r_name, skins = r_skins, capes = r_capes\<rparr>,
            user =
              \<lparr>username = r_username, uuid = r_uuid,
               user_type = of_ascii ''microsoft''\<rparr>\<rparr>))))))))))))))))))))"
  by (intro quiet_intros quiet_expiry quiet_getMicrosoftToken quiet_getXboxLiveToken
      quiet_getXSTSToken quiet_getMinecraftToken quiet_getMinecraftProfile TrueI)

lemma getMicrosoftToken_no_reply:
  assumes "transport env (ms_token_request p c r) = NoReply m" and "m \<noteq> []"
  shows "getMicrosoftToken env p c r s =
     (s\<lparr>calls := calls s @ [ms_token_request p c r],
        console := console s @ [(msg_ms_token_failed, JStr m)]\<rparr>,
      Inl (Error (msg_ms_token_failed @ of_ascii '': '' @ m)))"
  using assms
  by (simp add: getMicrosoftToken_def stage_defs error_response_data_def js_or_def opt_prop_simps)

text \<open>
  Claim C5, as amended. Every rejection of \<open>completeLogin\<close> or \<open>refreshTokens\<close>
  goes with exactly one emission on the error channel of the provider: a rejecting run
  adds exactly one error to the errors emitted so far, the error thrown inside the try
  block, and a run that returns adds none. When every listener returns on that error,
  or there is no listener, the caller gets the identical error value. When a listener
  throws, the caller gets what the listener threw instead.
\<close>

theorem rejection_emitted_once:
  "(\<forall>s' x. completeLogin env p authCode s = (s', Inl x) \<longrightarrow>
      (\<exists>e. emitted s' = emitted s @ [e] \<and> x = propagated s e \<and>
           (run_listeners (error_listeners s) e = None \<longrightarrow> x = e) \<and>
           (\<forall>y. run_listeners (error_listeners s) e = Some y \<longrightarrow> x = y))) \<and>
   (\<forall>s' r. completeLogin env p authCode s = (s', Inr r) \<longrightarrow> emitted s' = emitted s) \<and>
   (\<forall>s' x. refreshTokens env p refreshToken s = (s', Inl x) \<longrightarrow>
      (\<exists>e. emitted s' = emitted s @ [e] \<and> x = propagated s e \<and>
           (run_listeners (error_listeners s) e = None \<longrightarrow> x = e) \<and>
           (\<forall>y. run_listeners (error_listeners s) e = Some y \<longrightarrow> x = y))) \<and>
   (\<forall>s' r. refreshTokens env p refreshToken s = (s', Inr r) \<longrightarrow> emitted s' = emitted s)"
proof -
  have pr: "(run_listeners (error_listeners s) e = None \<longrightarrow> propagated s e = e) \<and>
            (\<forall>y. run_listeners (error_listeners s) e = Some y \<longrightarrow> propagated s e = y)" for e
    by (simp add: propagated_def)
  have login: "case r of
        Inl x \<Rightarrow> \<exists>e. emitted s' = emitted s @ [e] \<and> x = propagated s e
      | Inr y \<Rightarrow> emitted s' = emitted s"
    if "completeLogin env p authCode s = (s', r)" for s' r
    using that unfolding completeLogin_def by (rule notify_emitted[OF quiet_login_body])
  have refresh: "case r of
        Inl x \<Rightarrow> \<exists>e. emitted s' = emitted s @ [e] \<and> x = propagated s e
      | Inr y \<Rightarrow> emitted s' = emitted s"
    if "refreshTokens env p refreshToken s = (s', r)" for s' r
    using that unfolding refreshTokens_def by (rule notify_emitted[OF quiet_refresh_body])
  have l1: "\<exists>e. emitted s' = emitted s @ [e] \<and> x = propagated s e \<and>
           (run_listeners (error_listeners s) e = None \<longrightarrow> x = e) \<and>
           (\<forall>y. run_listeners (error_listeners s) e = Some y \<longrightarrow> x = y)"
    if "completeLogin env p authCode s = (s', Inl x)" for s' x
    using login[OF that] pr by auto
  have l2: "emitted s' = emitted s" if "completeLogin env p authCode s = (s', Inr r)" for s' r
    using login[OF that] by simp
  have r1: "\<exists>e. emitted s' = emitted s @ [e] \<and> x = propagated s e \<and>
           (run_listeners (error_listeners s) e = None \<longrightarrow> x = e) \<and>
           (\<forall>y. run_listeners (error_listeners s) e = Some y \<longrightarrow> x = y)"
    if "refreshTokens env p refreshToken s = (s', Inl x)" for s' x
    using refresh[OF that] pr by auto
  have r2: "emitted s' = emitted s" if "refreshTokens env p refreshToken s = (s', Inr r)" for s' r
    using refresh[OF that] by simp
  from l1 l2 r1 r2 show ?thesis
    by blast
qed

lemma demo_stage1_down:
  "getMicrosoftToken
     (demo_env (NoReply (of_ascii ''Network Error'')) r2 r3 r4 r5) demo_provider c r s =
   (s\<lparr>calls := calls s @ [ms_token_request demo_provider c r],
      console := console s @ [(msg_ms_token_failed, JStr (of_ascii ''Network Error''))]\<rparr>,
    Inl (Error (msg_ms_token_failed @ of_ascii '': Network Error'')))"
  using getMicrosoftToken_no_reply[of "demo_env (NoReply (of_ascii ''Network Error'')) r2 r3 r4 r5"
      demo_provider c r "of_ascii ''Network Error''" s]
  by (simp add: demo_transport route_simps of_ascii_def)

lemma demo_down_body:
  "seq (getMicrosoftToken
          (demo_env (NoReply (of_ascii ''Network Error'')) r2 r3 r4 r5) demo_provider c r) f s =
   (s\<lparr>calls := calls s @ [ms_token_request demo_provider c r],
      console := console s @ [(msg_ms_token_failed, JStr (of_ascii ''Network Error''))]\<rparr>,
    Inl (Error (msg_ms_token_failed @ of_ascii '': Network Error'')))"
  by (simp add: seq_def demo_stage1_down)

theorem rejection_emitted_once_witness:
  "(\<exists>s'. completeLogin
           (demo_env (NoReply (of_ascii ''Network Error'')) (Reply 200 xbl_body)
              (Reply 200 xsts_body) (Reply 200 mc_body) (Reply 200 profile_body))
           demo_provider (JStr (of_ascii ''auth-code'')) heard_state =
         (s', Inl (Error (msg_ms_token_failed @ of_ascii '': Network Error''))) \<and>
       emitted s' = [Error (msg_ms_token_failed @ of_ascii '': Network Error'')]) \<and>
   (\<exists>s' e. refreshTokens
           (demo_env (NoReply (of_ascii ''Network Error'')) (Reply 200 xbl_body)
              (Reply 200 xsts_body) (Reply 200 mc_body) (Reply 200 profile_body))
           demo_provider (JStr (of_ascii ''ms-refresh'')) throwing_state =
         (s', Inl listener_error) \<and>
       emitted s' = [e])"
proof -
  let ?env = "demo_env (NoReply (of_ascii ''Network Error'')) (Reply 200 xbl_body)
              (Reply 200 xsts_body) (Reply 200 mc_body) (Reply 200 profile_body)"
  let ?E = "Error (msg_ms_token_failed @ of_ascii '': Network Error'')"
  have "snd (completeLogin ?env demo_provider (JStr (of_ascii ''auth-code'')) heard_state) =
      Inl ?E"
    unfolding completeLogin_def
    by (simp add: notify_run[OF demo_down_body] propagated_def heard_state_def)
  then obtain s1 where 1: "completeLogin ?env demo_provider (JStr (of_ascii ''auth-code''))
      heard_state = (s1, Inl ?E)"
    by (metis prod.collapse)
  have "snd (refreshTokens ?env demo_provider (JStr (of_ascii ''ms-refresh'')) throwing_state) =
      Inl listener_error"
    unfolding refreshTokens_def
    by (simp add: notify_run[OF demo_down_body] propagated_def throwing_state_def)
  then obtain s2 where 2: "refreshTokens ?env demo_provider (JStr (of_ascii ''ms-refresh''))
      throwing_state = (s2, Inl listener_error)"
    by (metis prod.collapse)
  have ret: "run_listeners (error_listeners heard_state) e = None" for e
    by (simp add: heard_state_def)
  from rejection_emitted_once[of ?env demo_provider "JStr (of_ascii ''auth-code'')" heard_state
      "JStr (of_ascii ''ms-refresh'')"] 1 ret
  have "emitted s1 = emitted heard_state @ [?E]"
    by metis
  moreover
  from rejection_emitted_once[of ?env demo_provider "JStr (of_ascii ''auth-code'')"
      throwing_state "JStr (of_ascii ''ms-refresh'')"] 2
  have "\<exists>e. emitted s2 = emitted throwing_state @ [e]"
    by blast
  ultimately show ?thesis
    using 1 2 by (auto simp: heard_state_def throwing_state_def initial_state_def)
qed

text \<open>
  The claim as first stated has the caller get the very error that is emitted. With a
  listener on the channel that throws, a full login whose first stage fails emits the
  error of that stage once and rejects with the error of the listener, which is a
  different error and is not among the emitted ones.
\<close>

theorem rejection_replaced_by_listener:
  "completeLogin
     (demo_env (NoReply (of_ascii ''Network Error'')) (Reply 200 xbl_body)
        (Reply 200 xsts_body) (Reply 200 mc_body) (Reply 200 profile_body))
     demo_provider (JStr (of_ascii ''auth-code'')) throwing_state =
   (throwing_state
      \<lparr>calls := [ms_token_request demo_provider (JStr (of_ascii ''auth-code'')) False],
       console := [(msg_ms_token_failed, JStr (of_ascii ''Network Error''))],
       emitted := [Error (msg_ms_token_failed @ of_ascii '': Network Error'')]\<rparr>,
    Inl listener_error) \<and>
   listener_error \<notin> set [Error (msg_ms_token_failed @ of_ascii '': Network Error'')]"
proof -
  let ?env = "demo_env (NoReply (of_ascii ''Network Error'')) (Reply 200 xbl_body)
        (Reply 200 xsts_body) (Reply 200 mc_body) (Reply 200 profile_body)"
  have "completeLogin ?env demo_provider (JStr (of_ascii ''auth-code'')) throwing_state =
   (throwing_state
      \<lparr>calls := [ms_token_request demo_provider (JStr (of_ascii ''auth-code'')) False],
       console := [(msg_ms_token_failed, JStr (of_ascii ''Network Error''))],
       emitted := [Error (msg_ms_token_failed @ of_ascii '': Network Error'')]\<rparr>,
    Inl listener_error)"
    unfolding completeLogin_def
    by (simp add: notify_run[OF demo_down_body] propagated_def throwing_state_def
        initial_state_def)
  moreover have "listener_error \<noteq> Error (msg_ms_token_failed @ of_ascii '': Network Error'')"
    by (simp add: listener_error_def msg_ms_token_failed_def of_ascii_def)
  ultimately show ?thesis
    by simp
qed

section \<open>The security-token stage\<close>

lemma getXSTSToken_Inr:
  assumes "getXSTSToken env t s = (s', Inr r)"
  shows "\<exists>st d claims xui first.
     transport env (xsts_request t) = Reply st d \<and> 200 \<le> st \<and> st < 300 \<and>
     get_prop d (of_ascii ''Token'') = Inr (token r) \<and>
     get_prop d (of_ascii ''DisplayClaims'') = Inr claims \<and>
     get_prop claims (of_ascii ''xui'') = Inr xui \<and>
     index0 xui = Inr first \<and>
     get_prop first (of_ascii ''uhs'') = Inr (userHash r)"
proof (cases "axios_settle (transport env (xsts_request t))")
  case (Inl e)
  with assms show ?thesis
    by (auto simp: getXSTSToken_def stage_defs split: sum.splits if_splits)
next
  case (Inr resp)
  then obtain st d where reply: "transport env (xsts_request t) = Reply st d"
      and ok: "200 \<le> st" "st < 300" and resp: "resp = \<lparr>status = st, data = d\<rparr>"
    by (auto simp: axios_settle_def split: net_reply.splits if_splits)
  from assms reply ok show ?thesis
    by (auto simp: getXSTSToken_def stage_defs split: sum.splits if_splits)
qed

lemma index0_first:
  "index0 (JArr xs) = Inr first \<Longrightarrow> get_prop first k = Inr u \<Longrightarrow>
   \<exists>rest. xs = first # rest"
  by (cases xs) auto

lemma get_prop_defined:
  "v \<noteq> JUndefined \<Longrightarrow> v \<noteq> JNull \<Longrightarrow> get_prop v k = Inr (opt_prop v k)"
  by (cases v) (simp_all add: opt_prop_def)

lemma opt_prop_defined: "opt_prop v k \<noteq> JUndefined \<Longrightarrow> v \<noteq> JUndefined \<and> v \<noteq> JNull"
  by (cases v) (simp_all add: opt_prop_def)

lemma getXSTSToken_ok:
  "transport env (xsts_request a) = Reply st d \<Longrightarrow> 200 \<le> st \<Longrightarrow> st < 300 \<Longrightarrow>
   get_prop d (of_ascii ''Token'') = Inr tok \<Longrightarrow>
   get_prop d (of_ascii ''DisplayClaims'') = Inr claims \<Longrightarrow>
   get_prop claims (of_ascii ''xui'') = Inr xui \<Longrightarrow>
   index0 xui = Inr first \<Longrightarrow>
   get_prop first (of_ascii ''uhs'') = Inr uhs \<Longrightarrow>
   getXSTSToken env a s =
     (s\<lparr>calls := calls s @ [xsts_request a]\<rparr>, Inr \<lparr>token = tok, userHash = uhs\<rparr>)"
  by (simp add: getXSTSToken_def stage_defs)

text \<open>
  Claim C9. For a security-token response whose \<open>DisplayClaims.xui\<close> is an empty array
  or is absent, \<open>getXSTSToken\<close> fails instead of returning a token and a user hash.
  For a 2xx response whose \<open>xui\<close> is an array with a first entry that is neither
  \<open>undefined\<close> nor \<open>null\<close>, it returns the \<open>Token\<close> of the body and the \<open>uhs\<close> of
  that first entry, having sent its one request. Whenever it returns, \<open>xui\<close> has such
  a first entry, the user hash is its \<open>uhs\<close> and the token is the \<open>Token\<close> of the
  body; in particular, when \<open>xui\<close> is an array, the array is not empty.
\<close>

theorem getXSTSToken_needs_first_claim:
  assumes reply: "transport env (xsts_request xblToken) = Reply st body"
    and xui: "xui = opt_prop (opt_prop body (of_ascii ''DisplayClaims'')) (of_ascii ''xui'')"
  shows "(xui = JArr [] \<or> xui = JUndefined \<or> xui = JNull \<longrightarrow>
            (\<exists>e. snd (getXSTSToken env xblToken s) = Inl e)) \<and>
         (200 \<le> st \<and> st < 300 \<and> xui = JArr (first # rest) \<and>
          first \<noteq> JUndefined \<and> first \<noteq> JNull \<longrightarrow>
            getXSTSToken env xblToken s =
              (s\<lparr>calls := calls s @ [xsts_request xblToken]\<rparr>,
               Inr \<lparr>token = opt_prop body (of_ascii ''Token''),
                    userHash = opt_prop first (of_ascii ''uhs'')\<rparr>)) \<and>
         (\<forall>r. snd (getXSTSToken env xblToken s) = Inr r \<longrightarrow>
            (\<exists>first. index0 xui = Inr first \<and> first \<noteq> JUndefined \<and> first \<noteq> JNull \<and>
               userHash r = opt_prop first (of_ascii ''uhs'') \<and>
               token r = opt_prop body (of_ascii ''Token'') \<and>
               (\<forall>xs. xui = JArr xs \<longrightarrow> (\<exists>rest. xs = first # rest))))"
proof -
  have ret: "\<exists>first. index0 xui = Inr first \<and> first \<noteq> JUndefined \<and> first \<noteq> JNull \<and>
               userHash r = opt_prop first (of_ascii ''uhs'') \<and>
               token r = opt_prop body (of_ascii ''Token'') \<and>
               (\<forall>xs. xui = JArr xs \<longrightarrow> (\<exists>rest. xs = first # rest))"
    if "snd (getXSTSToken env xblToken s) = Inr r" for r
  proof -
    from that obtain s' where "getXSTSToken env xblToken s = (s', Inr r)"
      by (metis prod.collapse)
    from getXSTSToken_Inr[OF this] reply obtain claims x first where
      tk: "get_prop body (of_ascii ''Token'') = Inr (token r)"
      and cl: "get_prop body (of_ascii ''DisplayClaims'') = Inr claims"
      and xu: "get_prop claims (of_ascii ''xui'') = Inr x"
      and fi: "index0 x = Inr first"
      and uh: "get_prop first (of_ascii ''uhs'') = Inr (userHash r)"
      by auto
    have "x = xui"
      using cl xu xui by (simp add: opt_prop_def)
    moreover have "first \<noteq> JUndefined \<and> first \<noteq> JNull"
      using uh by auto
    moreover have "\<forall>xs. xui = JArr xs \<longrightarrow> (\<exists>rest. xs = first # rest)"
      using fi uh \<open>x = xui\<close> index0_first by blast
    ultimately show ?thesis
      using tk fi uh by (auto simp: opt_prop_def)
  qed
  have "\<exists>e. snd (getXSTSToken env xblToken s) = Inl e"
    if "xui = JArr [] \<or> xui = JUndefined \<or> xui = JNull"
  proof (cases "snd (getXSTSToken env xblToken s)")
    case (Inl e)
    then show ?thesis
      by blast
  next
    case (Inr r)
    from ret[OF Inr] that show ?thesis
      by auto
  qed
  moreover have "getXSTSToken env xblToken s =
      (s\<lparr>calls := calls s @ [xsts_request xblToken]\<rparr>,
       Inr \<lparr>token = opt_prop body (of_ascii ''Token''),
            userHash = opt_prop first (of_ascii ''uhs'')\<rparr>)"
    if ok: "200 \<le> st" "st < 300" and arr: "xui = JArr (first # rest)"
      and fst: "first \<noteq> JUndefined" "first \<noteq> JNull"
  proof -
    let ?claims = "opt_prop body (of_ascii ''DisplayClaims'')"
    from arr xui have x: "opt_prop ?claims (of_ascii ''xui'') \<noteq> JUndefined"
      by simp
    from opt_prop_defined[OF x] have c: "?claims \<noteq> JUndefined" "?claims \<noteq> JNull"
      by simp_all
    from opt_prop_defined[OF c(1)] have b: "body \<noteq> JUndefined" "body \<noteq> JNull"
      by simp_all
    have ix: "index0 (opt_prop ?claims (of_ascii ''xui'')) = Inr first"
      using arr xui by simp
    show ?thesis
      by (rule getXSTSToken_ok[OF reply ok get_prop_defined[OF b] get_prop_defined[OF b]
            get_prop_defined[OF c] ix get_prop_defined[OF fst]])
  qed
  ultimately show ?thesis
    using ret by blast
qed

theorem getXSTSToken_needs_first_claim_witness:
  "(\<exists>e. snd (getXSTSToken
              (demo_env (Reply 200 ms_body) (Reply 200 xbl_body)
                 (Reply 200 (JObj [(of_ascii ''Token'', JStr (of_ascii ''xsts-token'')),
                    (of_ascii ''DisplayClaims'', JObj [(of_ascii ''xui'', JArr [])])]))
                 (Reply 200 mc_body) (Reply 200 profile_body))
              (JStr (of_ascii ''xbl-ticket'')) initial_state) = Inl e) \<and>
   getXSTSToken
     (demo_env (Reply 200 ms_body) (Reply 200 xbl_body) (Reply 200 xsts_body)
        (Reply 200 mc_body) (Reply 200 profile_body))
     (JStr (of_ascii ''xbl-ticket'')) initial_state =
   (initial_state\<lparr>calls := [xsts_request (JStr (of_ascii ''xbl-ticket''))]\<rparr>,
    Inr \<lparr>token = JStr (of_ascii ''xsts-token''), userHash = JStr (of_ascii ''hash'')\<rparr>)"
proof -
  let ?empty = "JObj [(of_ascii ''Token'', JStr (of_ascii ''xsts-token'')),
                    (of_ascii ''DisplayClaims'', JObj [(of_ascii ''xui'', JArr [])])]"
  let ?e1 = "demo_env (Reply 200 ms_body) (Reply 200 xbl_body) (Reply 200 ?empty)
               (Reply 200 mc_body) (Reply 200 profile_body)"
  let ?e2 = "demo_env (Reply 200 ms_body) (Reply 200 xbl_body) (Reply 200 xsts_body)
               (Reply 200 mc_body) (Reply 200 profile_body)"
  let ?t = "JStr (of_ascii ''xbl-ticket'')"
  let ?entry = "JObj [(of_ascii ''uhs'', JStr (of_ascii ''hash''))]"
  have r1: "transport ?e1 (xsts_request ?t) = Reply 200 ?empty"
    by (simp add: demo_transport route_simps)
  have x1: "JArr [] = opt_prop (opt_prop ?empty (of_ascii ''DisplayClaims'')) (of_ascii ''xui'')"
    by (simp add: opt_prop_simps of_ascii_inj)
  have r2: "transport ?e2 (xsts_request ?t) = Reply 200 xsts_body"
    by (simp add: demo_transport route_simps)
  have x2: "JArr [?entry] =
      opt_prop (opt_prop xsts_body (of_ascii ''DisplayClaims'')) (of_ascii ''xui'')"
    by (simp add: xsts_body_def opt_prop_simps of_ascii_inj)
  have vals: "opt_prop xsts_body (of_ascii ''Token'') = JStr (of_ascii ''xsts-token'')"
    "opt_prop ?entry (of_ascii ''uhs'') = JStr (of_ascii ''hash'')"
    by (simp_all add: xsts_body_def opt_prop_simps)
  from getXSTSToken_needs_first_claim[where s = initial_state, OF r1 x1]
  have "\<exists>e. snd (getXSTSToken ?e1 ?t initial_state) = Inl e"
    by simp
  moreover from getXSTSToken_needs_first_claim[where first = ?entry and rest = "[]"
      and s = initial_state, OF r2 x2]
  have "getXSTSToken ?e2 ?t initial_state =
      (initial_state\<lparr>calls := [xsts_request ?t]\<rparr>,
       Inr \<lparr>token = JStr (of_ascii ''xsts-token''), userHash = JStr (of_ascii ''hash'')\<rparr>)"
    by (simp add: vals initial_state_def)
  ultimately show ?thesis
    by simp
qed

section \<open>Construction and the authorization address\<close>

lemma new_provider_run:
  "new_provider options s =
     (s, if truthy options \<and> truthy (opt_prop options (of_ascii ''clientId''))
         then Inr \<lparr>clientId = opt_prop options (of_ascii ''clientId''),
                   redirectUri = js_or (opt_prop options (of_ascii ''redirectUri''))
                                   (JStr default_redirectUri)\<rparr>
         else Inl (Error msg_clientId_required))"
  by (cases options) (simp_all add: new_provider_def io_defs opt_prop_def)

text \<open>
  Claim C7. Constructing the provider without an options object, or with an options
  object whose \<open>clientId\<close> is missing or is the empty string, fails with the
  clientId-required error, and construction leaves the state as it is (nothing is sent);
  with a non-empty \<open>clientId\<close> string construction succeeds and the provider holds
  that \<open>clientId\<close>.
\<close>

theorem constructor_requires_clientId:
  "fst (new_provider options s) = s \<and>
   snd (new_provider JUndefined s) = Inl (Error msg_clientId_required) \<and>
   (map_of kvs (of_ascii ''clientId'') = None \<longrightarrow>
      snd (new_provider (JObj kvs) s) = Inl (Error msg_clientId_required)) \<and>
   (map_of kvs (of_ascii ''clientId'') = Some (JStr []) \<longrightarrow>
      snd (new_provider (JObj kvs) s) = Inl (Error msg_clientId_required)) \<and>
   (c \<noteq> [] \<and> map_of kvs (of_ascii ''clientId'') = Some (JStr c) \<longrightarrow>
      (\<exists>p. snd (new_provider (JObj kvs) s) = Inr p \<and> clientId p = JStr c))"
  by (simp add: new_provider_run opt_prop_simps)

theorem constructor_requires_clientId_witness:
  "snd (new_provider (JObj [(of_ascii ''redirectUri'', JStr (of_ascii ''http://localhost''))])
          initial_state) = Inl (Error msg_clientId_required) \<and>
   snd (new_provider (JObj [(of_ascii ''clientId'', JStr [])]) initial_state) =
     Inl (Error msg_clientId_required) \<and>
   (\<exists>p. snd (new_provider (JObj [(of_ascii ''clientId'', JStr (of_ascii ''my-client-id''))])
               initial_state) = Inr p \<and>
        clientId p = JStr (of_ascii ''my-client-id''))"
proof -
  have missing: "map_of [(of_ascii ''redirectUri'', JStr (of_ascii ''http://localhost''))]
      (of_ascii ''clientId'') = None"
    by (simp add: of_ascii_inj)
  have empty: "map_of [(of_ascii ''clientId'', JStr [])] (of_ascii ''clientId'') = Some (JStr [])"
    by simp
  have given: "of_ascii ''my-client-id'' \<noteq> [] \<and>
      map_of [(of_ascii ''clientId'', JStr (of_ascii ''my-client-id''))] (of_ascii ''clientId'') =
        Some (JStr (of_ascii ''my-client-id''))"
    by (simp add: of_ascii_Nil)
  from constructor_requires_clientId[of JUndefined initial_state
      "[(of_ascii ''redirectUri'', JStr (of_ascii ''http://localhost''))]"] missing
  have 1: "snd (new_provider (JObj [(of_ascii ''redirectUri'', JStr (of_ascii ''http://localhost''))])
          initial_state) = Inl (Error msg_clientId_required)"
    by blast
  from constructor_requires_clientId[of JUndefined initial_state
      "[(of_ascii ''clientId'', JStr [])]"] empty
  have 2: "snd (new_provider (JObj [(of_ascii ''clientId'', JStr [])]) initial_state) =
     Inl (Error msg_clientId_required)"
    by blast
  from constructor_requires_clientId[of JUndefined initial_state
      "[(of_ascii ''clientId'', JStr (of_ascii ''my-client-id''))]" "of_ascii ''my-client-id''"] given
  have 3: "\<exists>p. snd (new_provider (JObj [(of_ascii ''clientId'', JStr (of_ascii ''my-client-id''))])
               initial_state) = Inr p \<and>
        clientId p = JStr (of_ascii ''my-client-id'')"
    by blast
  from 1 2 3 show ?thesis
    by blast
qed

lemma unreserved_not_surrogate:
  "uri_unreserved c \<Longrightarrow> \<not> high_surrogate c \<and> \<not> low_surrogate c"
  unfolding uri_unreserved_def high_surrogate_def low_surrogate_def of_ascii_def
  by (auto simp: word_le_nat_alt)

lemma after_Inr: "(\<exists>r. after pre x = Inr r) \<longleftrightarrow> (\<exists>r. x = Inr r)"
  by (cases x) simp_all

lemma after_Inl: "after pre x = Inl e \<longleftrightarrow> x = Inl e"
  by (cases x) simp_all

lemma encodeURIComponent_error: "encodeURIComponent cs = Inl e \<Longrightarrow> e = uri_malformed"
  by (induction cs arbitrary: e rule: encodeURIComponent.induct)
     (auto simp: after_Inl split: if_splits list.splits)

text \<open>\<open>encodeURIComponent\<close> returns exactly on the well-formed strings.\<close>

lemma encodeURIComponent_defined:
  "(\<exists>r. encodeURIComponent cs = Inr r) \<longleftrightarrow> well_formed_utf16 cs"
proof (induction cs rule: encodeURIComponent.induct)
  case 1
  show ?case
    by simp
next
  case (2 c cs)
  show ?case
  proof (cases "uri_unreserved c")
    case True
    with 2(1) unreserved_not_surrogate[OF True] show ?thesis
      by (simp add: after_Inr)
  next
    case nu: False
    show ?thesis
    proof (cases "low_surrogate c")
      case True
      then have "\<not> high_surrogate c"
        by (auto simp: low_surrogate_def high_surrogate_def word_le_nat_alt)
      with nu True show ?thesis
        by simp
    next
      case nl: False
      show ?thesis
      proof (cases "high_surrogate c")
        case False
        with nu nl 2(3) show ?thesis
          by (simp add: after_Inr)
      next
        case True
        show ?thesis
        proof (cases cs)
          case Nil
          with nu nl True show ?thesis
            by simp
        next
          case (Cons d ds)
          with nu nl True 2(2)[OF nu nl True Cons] show ?thesis
            by (simp add: after_Inr)
        qed
      qed
    qed
  qed
qed

lemma well_formed_ascii: "well_formed_utf16 (of_ascii cs)"
proof (induction cs)
  case Nil
  show ?case
    by (simp add: of_ascii_def)
next
  case (Cons a cs)
  have "(of_char a :: nat) < 256"
    by simp
  then have "unat (of_char a :: 16 word) < 256"
    by (simp only: unat_of_char16)
  then have "\<not> high_surrogate (of_char a) \<and> \<not> low_surrogate (of_char a)"
    by (auto simp: high_surrogate_def low_surrogate_def word_le_nat_alt)
  with Cons show ?case
    by (simp add: of_ascii_def)
qed

lemma enc_scopes: "encodeURIComponent scopes = Inr (of_ascii ''XboxLive.signin%20offline_access'')"
  by (simp add: scopes_def of_ascii_def uri_unreserved_def low_surrogate_def high_surrogate_def
      escape_def utf8_def percent_def hex_digit_def)

lemma enc_default_redirectUri:
  "encodeURIComponent default_redirectUri =
     Inr (of_ascii ''https%3A%2F%2Flogin.microsoftonline.com%2Fcommon%2Foauth2%2Fnativeclient'')"
  by (simp add: default_redirectUri_def of_ascii_def uri_unreserved_def low_surrogate_def
      high_surrogate_def escape_def utf8_def percent_def hex_digit_def)

lemma getAuthorizationUrl_run:
  "getAuthorizationUrl p s =
     (s, case encodeURIComponent (to_string (redirectUri p)) of
           Inl e \<Rightarrow> Inl e
         | Inr enc \<Rightarrow>
             Inr (authorize_prefix @ to_string (clientId p) @
                  of_ascii ''&response_type=code&scope=XboxLive.signin%20offline_access&redirect_uri='' @
                  enc))"
  by (simp add: getAuthorizationUrl_def io_defs enc_scopes of_ascii_def split: sum.splits)

text \<open>
  Claim C8, as amended. \<open>getAuthorizationUrl\<close> sends nothing and changes nothing. When
  the configured \<open>redirectUri\<close> is well-formed UTF-16 it returns the authorization
  address, which contains the configured \<open>clientId\<close> as it is and the URL-encoded
  \<open>redirectUri\<close>; when the \<open>redirectUri\<close> holds a surrogate code unit without its
  partner the call fails with \<open>URIError\<close>, and that is its only failure.
\<close>

theorem getAuthorizationUrl_contains:
  "fst (getAuthorizationUrl p s) = s \<and>
   (well_formed_utf16 (to_string (redirectUri p)) \<longrightarrow>
      (\<exists>enc url. encodeURIComponent (to_string (redirectUri p)) = Inr enc \<and>
         snd (getAuthorizationUrl p s) = Inr url \<and>
         url = authorize_prefix @ to_string (clientId p) @
               of_ascii ''&response_type=code&scope=XboxLive.signin%20offline_access&redirect_uri='' @
               enc \<and>
         sublist (to_string (clientId p)) url \<and> sublist enc url)) \<and>
   (\<not> well_formed_utf16 (to_string (redirectUri p)) \<longrightarrow>
      snd (getAuthorizationUrl p s) = Inl uri_malformed)"
proof (cases "well_formed_utf16 (to_string (redirectUri p))")
  case True
  then obtain enc where enc: "encodeURIComponent (to_string (redirectUri p)) = Inr enc"
    using encodeURIComponent_defined by blast
  have "sublist (to_string (clientId p))
          (authorize_prefix @ to_string (clientId p) @
           of_ascii ''&response_type=code&scope=XboxLive.signin%20offline_access&redirect_uri='' @
           enc)"
    unfolding sublist_def by blast
  moreover have "sublist enc
          (authorize_prefix @ to_string (clientId p) @
           of_ascii ''&response_type=code&scope=XboxLive.signin%20offline_access&redirect_uri='' @
           enc)"
    using sublist_suffix_part[of enc "authorize_prefix @ to_string (clientId p) @
           of_ascii ''&response_type=code&scope=XboxLive.signin%20offline_access&redirect_uri=''"]
    by simp
  ultimately show ?thesis
    using True enc by (simp add: getAuthorizationUrl_run)
next
  case False
  then have "\<nexists>r. encodeURIComponent (to_string (redirectUri p)) = Inr r"
    using encodeURIComponent_defined by blast
  then obtain e where "encodeURIComponent (to_string (redirectUri p)) = Inl e"
    by (cases "encodeURIComponent (to_string (redirectUri p))") auto
  with encodeURIComponent_error[OF this] False show ?thesis
    by (simp add: getAuthorizationUrl_run)
qed

theorem getAuthorizationUrl_contains_witness:
  "(\<exists>url. snd (getAuthorizationUrl demo_provider initial_state) = Inr url \<and>
      sublist (of_ascii ''my-client-id'') url \<and>
      sublist (of_ascii ''https%3A%2F%2Flogin.microsoftonline.com%2Fcommon%2Foauth2%2Fnativeclient'')
        url) \<and>
   snd (getAuthorizationUrl
          \<lparr>clientId = JStr (of_ascii ''my-client-id''), redirectUri = JStr [0xDC00, 0x41]\<rparr>
          initial_state) = Inl uri_malformed"
proof -
  let ?bad = "\<lparr>clientId = JStr (of_ascii ''my-client-id''), redirectUri = JStr [0xDC00, 0x41]\<rparr>"
  have wf: "well_formed_utf16 (to_string (redirectUri demo_provider))"
    by (simp add: demo_provider_def default_redirectUri_def well_formed_ascii)
  have nwf: "\<not> well_formed_utf16 (to_string (redirectUri ?bad))"
    by (simp add: high_surrogate_def low_surrogate_def)
  from getAuthorizationUrl_contains[of demo_provider initial_state] wf
  have "\<exists>url. snd (getAuthorizationUrl demo_provider initial_state) = Inr url \<and>
      sublist (of_ascii ''my-client-id'') url \<and>
      sublist (of_ascii ''https%3A%2F%2Flogin.microsoftonline.com%2Fcommon%2Foauth2%2Fnativeclient'')
        url"
    by (auto simp: demo_provider_def enc_default_redirectUri)
  moreover from getAuthorizationUrl_contains[of ?bad initial_state] nwf
  have "snd (getAuthorizationUrl ?bad initial_state) = Inl uri_malformed"
    by blast
  ultimately show ?thesis
    by blast
qed

text \<open>
  The claim as first stated gives the call no failure mode. A provider constructed with
  a valid \<open>clientId\<close> and a \<open>redirectUri\<close> that is a lone high surrogate is a
  counterexample: construction succeeds and \<open>getAuthorizationUrl\<close> throws.
\<close>

theorem getAuthorizationUrl_can_fail:
  "new_provider (JObj [(of_ascii ''clientId'', JStr (of_ascii ''my-client-id'')),
                       (of_ascii ''redirectUri'', JStr [0xD800])]) initial_state =
     (initial_state,
      Inr \<lparr>clientId = JStr (of_ascii ''my-client-id''), redirectUri = JStr [0xD800]\<rparr>) \<and>
   getAuthorizationUrl \<lparr>clientId = JStr (of_ascii ''my-client-id''), redirectUri = JStr [0xD800]\<rparr>
       initial_state = (initial_state, Inl uri_malformed)"
  by (simp add: new_provider_run opt_prop_simps js_or_def getAuthorizationUrl_run of_ascii_def
      uri_unreserved_def low_surrogate_def high_surrogate_def)

section \<open>Token validation and ownership check never throw\<close>

lemma validateMinecraftToken_run:
  "validateMinecraftToken env a s =
     (s\<lparr>calls := calls s @ [entitlements_request a]\<rparr>,
      Inr (JBool (case transport env (entitlements_request a) of
                    NoReply m \<Rightarrow> False
                  | Reply st d \<Rightarrow> st = 200)))"
  by (auto simp: validateMinecraftToken_def stage_defs split: net_reply.splits)

lemma call_some_cases:
  "call_some items =
     (case items of
        JArr xs \<Rightarrow> (case some_game xs of Inl e \<Rightarrow> Inl e | Inr b \<Rightarrow> Inr (JBool b))
      | _ \<Rightarrow> Inl (TypeError (of_ascii ''response.data.items.some is not a function'')))"
  by (simp add: call_some_def)

lemma checkGameOwnership_result:
  "snd (checkGameOwnership env a s) =
     Inr (case transport env (entitlements_request a) of
            NoReply m \<Rightarrow> JBool False
          | Reply st d \<Rightarrow>
              if \<not> (200 \<le> st \<and> st < 300) then JBool False
              else if \<not> truthy d then d
              else if \<not> truthy (opt_prop d (of_ascii ''items'')) then opt_prop d (of_ascii ''items'')
              else JBool (\<exists>xs. opt_prop d (of_ascii ''items'') = JArr xs \<and> some_game xs = Inr True))"
proof (cases "transport env (entitlements_request a)")
  case (NoReply m)
  then show ?thesis
    by (simp add: checkGameOwnership_def stage_defs)
next
  case (Reply st d)
  show ?thesis
  proof (cases "200 \<le> st \<and> st < 300")
    case False
    with Reply show ?thesis
      by (auto simp: checkGameOwnership_def stage_defs)
  next
    case ok: True
    show ?thesis
    proof (cases "truthy d")
      case False
      with Reply ok show ?thesis
        by (simp add: checkGameOwnership_def stage_defs)
    next
      case td: True
      show ?thesis
      proof (cases "truthy (opt_prop d (of_ascii ''items''))")
        case False
        with Reply ok td show ?thesis
          by (simp add: checkGameOwnership_def stage_defs truthy_get_prop)
      next
        case ti: True
        have "snd (checkGameOwnership env a s) =
            (case call_some (opt_prop d (of_ascii ''items'')) of
               Inl e \<Rightarrow> Inr (JBool False) | Inr v \<Rightarrow> Inr v)"
          using Reply ok td ti
          by (simp add: checkGameOwnership_def stage_defs truthy_get_prop split: sum.splits)
        also have "\<dots> = Inr (JBool (\<exists>xs. opt_prop d (of_ascii ''items'') = JArr xs \<and>
                                       some_game xs = Inr True))"
          by (cases "opt_prop d (of_ascii ''items'')")
             (auto simp: call_some_def split: sum.splits)
        finally show ?thesis
          using Reply ok td ti by simp
      qed
    qed
  qed
qed

lemma entitlements_route: "route r1 r2 r3 r4 r5 (entitlements_request a) = r5"
  by (simp add: route_def entitlements_request_def entitlementsUrl_def tokenUrl_def xblUrl_def
      xstsUrl_def mcTokenUrl_def of_ascii_inj)

text \<open>
  Claim C6, as amended. \<open>validateMinecraftToken\<close> and \<open>checkGameOwnership\<close> never
  throw. When the request gets no answer or an answer whose status is not 2xx, each
  returns \<open>false\<close>. \<open>validateMinecraftToken\<close> does not read the body: it returns
  \<open>true\<close> exactly when the status is 200. On a 2xx answer whose body and whose
  \<open>items\<close> are truthy, \<open>checkGameOwnership\<close> returns \<open>true\<close> when \<open>items\<close> is an
  array in which the search for an entry named \<open>game_minecraft\<close> succeeds, and
  \<open>false\<close> otherwise (\<open>items\<close> ill-shaped, or an entry that cannot be read).
\<close>

theorem validation_and_ownership_never_throw:
  "(\<exists>b. snd (validateMinecraftToken env accessToken s) = Inr (JBool b)) \<and>
   (\<exists>v. snd (checkGameOwnership env accessToken s) = Inr v) \<and>
   (\<forall>m. transport env (entitlements_request accessToken) = NoReply m \<longrightarrow>
      snd (validateMinecraftToken env accessToken s) = Inr (JBool False) \<and>
      snd (checkGameOwnership env accessToken s) = Inr (JBool False)) \<and>
   (\<forall>st d. transport env (entitlements_request accessToken) = Reply st d \<and>
           \<not> (200 \<le> st \<and> st < 300) \<longrightarrow>
      snd (validateMinecraftToken env accessToken s) = Inr (JBool False) \<and>
      snd (checkGameOwnership env accessToken s) = Inr (JBool False)) \<and>
   (\<forall>st d. transport env (entitlements_request accessToken) = Reply st d \<longrightarrow>
      snd (validateMinecraftToken env accessToken s) = Inr (JBool (st = 200))) \<and>
   (\<forall>st d. transport env (entitlements_request accessToken) = Reply st d \<and>
           200 \<le> st \<and> st < 300 \<and> truthy d \<and> truthy (opt_prop d (of_ascii ''items'')) \<longrightarrow>
      snd (checkGameOwnership env accessToken s) =
        Inr (JBool (\<exists>xs. opt_prop d (of_ascii ''items'') = JArr xs \<and> some_game xs = Inr True)))"
  by (auto simp: validateMinecraftToken_run checkGameOwnership_result)

theorem validation_and_ownership_never_throw_witness:
  "snd (validateMinecraftToken
          (demo_env ms_ok xbl_ok xsts_ok mc_ok (NoReply (of_ascii ''Network Error'')))
          (JStr (of_ascii ''mc-access'')) initial_state) = Inr (JBool False) \<and>
   snd (checkGameOwnership
          (demo_env ms_ok xbl_ok xsts_ok mc_ok (NoReply (of_ascii ''Network Error'')))
          (JStr (of_ascii ''mc-access'')) initial_state) = Inr (JBool False) \<and>
   snd (validateMinecraftToken
          (demo_env ms_ok xbl_ok xsts_ok mc_ok (Reply 401 JNull))
          (JStr (of_ascii ''mc-access'')) initial_state) = Inr (JBool False) \<and>
   snd (checkGameOwnership
          (demo_env ms_ok xbl_ok xsts_ok mc_ok (Reply 401 JNull))
          (JStr (of_ascii ''mc-access'')) initial_state) = Inr (JBool False) \<and>
   snd (checkGameOwnership
          (demo_env ms_ok xbl_ok xsts_ok mc_ok
             (Reply 200 (JObj [(of_ascii ''items'', JStr (of_ascii ''none''))])))
          (JStr (of_ascii ''mc-access'')) initial_state) = Inr (JBool False) \<and>
   snd (checkGameOwnership
          (demo_env ms_ok xbl_ok xsts_ok mc_ok
             (Reply 200 (JObj [(of_ascii ''items'',
                JArr [JObj [(of_ascii ''name'', JStr (of_ascii ''product_minecraft''))],
                      JObj [(of_ascii ''name'', JStr (of_ascii ''game_minecraft''))]])])))
          (JStr (of_ascii ''mc-access'')) initial_state) = Inr (JBool True)"
proof -
  let ?a = "JStr (of_ascii ''mc-access'')"
  let ?down = "demo_env ms_ok xbl_ok xsts_ok mc_ok (NoReply (of_ascii ''Network Error''))"
  let ?denied = "demo_env ms_ok xbl_ok xsts_ok mc_ok (Reply 401 JNull)"
  let ?odd = "JObj [(of_ascii ''items'', JStr (of_ascii ''none''))]"
  let ?shaped = "demo_env ms_ok xbl_ok xsts_ok mc_ok (Reply 200 ?odd)"
  let ?items = "[JObj [(of_ascii ''name'', JStr (of_ascii ''product_minecraft''))],
                 JObj [(of_ascii ''name'', JStr (of_ascii ''game_minecraft''))]]"
  let ?owned = "demo_env ms_ok xbl_ok xsts_ok mc_ok
                  (Reply 200 (JObj [(of_ascii ''items'', JArr ?items)]))"
  have t1: "transport ?down (entitlements_request ?a) = NoReply (of_ascii ''Network Error'')"
    by (simp add: demo_transport entitlements_route)
  have t2: "transport ?denied (entitlements_request ?a) = Reply 401 JNull \<and>
      \<not> (200 \<le> (401::int) \<and> (401::int) < 300)"
    by (simp add: demo_transport entitlements_route)
  have t3: "transport ?shaped (entitlements_request ?a) = Reply 200 ?odd \<and>
      200 \<le> (200::int) \<and> (200::int) < 300 \<and> truthy ?odd \<and>
      truthy (opt_prop ?odd (of_ascii ''items''))"
    by (simp add: demo_transport entitlements_route opt_prop_simps of_ascii_Nil)
  have t4: "transport ?owned (entitlements_request ?a) =
        Reply 200 (JObj [(of_ascii ''items'', JArr ?items)]) \<and>
      200 \<le> (200::int) \<and> (200::int) < 300 \<and> truthy (JObj [(of_ascii ''items'', JArr ?items)]) \<and>
      truthy (opt_prop (JObj [(of_ascii ''items'', JArr ?items)]) (of_ascii ''items''))"
    by (simp add: demo_transport entitlements_route opt_prop_simps)
  have game: "some_game ?items = Inr True"
    by (simp add: of_ascii_inj)
  from validation_and_ownership_never_throw[of ?down ?a initial_state] t1
  have 1: "snd (validateMinecraftToken ?down ?a initial_state) = Inr (JBool False) \<and>
           snd (checkGameOwnership ?down ?a initial_state) = Inr (JBool False)"
    by blast
  from validation_and_ownership_never_throw[of ?denied ?a initial_state] t2
  have 2: "snd (validateMinecraftToken ?denied ?a initial_state) = Inr (JBool False) \<and>
           snd (checkGameOwnership ?denied ?a initial_state) = Inr (JBool False)"
    by blast
  from validation_and_ownership_never_throw[of ?shaped ?a initial_state] t3
  have "snd (checkGameOwnership ?shaped ?a initial_state) =
      Inr (JBool (\<exists>xs. opt_prop ?odd (of_ascii ''items'') = JArr xs \<and> some_game xs = Inr True))"
    by blast
  then have 3: "snd (checkGameOwnership ?shaped ?a initial_state) = Inr (JBool False)"
    by (simp add: opt_prop_simps)
  from validation_and_ownership_never_throw[of ?owned ?a initial_state] t4
  have "snd (checkGameOwnership ?owned ?a initial_state) =
      Inr (JBool (\<exists>xs. opt_prop (JObj [(of_ascii ''items'', JArr ?items)]) (of_ascii ''items'') =
                      JArr xs \<and> some_game xs = Inr True))"
    by blast
  then have 4: "snd (checkGameOwnership ?owned ?a initial_state) = Inr (JBool True)"
    using game by (simp add: opt_prop_simps)
  from 1 2 3 4 show ?thesis
    by blast
qed

text \<open>
  The claim as first stated has both operations return \<open>false\<close> on a malformed body.
  On an answer with status 200 and the body \<open>{}\<close>, which has none of the expected
  fields, \<open>validateMinecraftToken\<close> returns \<open>true\<close> (and \<open>checkGameOwnership\<close>
  returns \<open>undefined\<close>, the absent \<open>items\<close>).
\<close>

theorem validateMinecraftToken_ignores_body:
  "snd (validateMinecraftToken (demo_env ms_ok xbl_ok xsts_ok mc_ok (Reply 200 (JObj [])))
          (JStr (of_ascii ''mc-access'')) initial_state) = Inr (JBool True) \<and>
   snd (checkGameOwnership (demo_env ms_ok xbl_ok xsts_ok mc_ok (Reply 200 (JObj [])))
          (JStr (of_ascii ''mc-access'')) initial_state) = Inr JUndefined"
  by (simp add: validateMinecraftToken_run checkGameOwnership_result demo_transport
      entitlements_route opt_prop_simps)

end
